theory Spec2Isabelle
  imports Complex_Main "HOL-Library.Word"
begin

unbundle bit_operations_syntax

section \<open>Python values\<close>

text \<open>
  The program is \<^verbatim>\<open>src/main.py\<close>: an MCP server exposing four tools that talk to the
  OKX REST API. Python \<^verbatim>\<open>str\<close> values are modelled by their UTF-8 encoding, as
  \<^typ>\<open>string\<close> (a list of bytes); the non-ASCII literals of the source are therefore
  written byte by byte. Strings that have no UTF-8 encoding (lone surrogates) are outside
  the model.
\<close>

type_synonym byte = "8 word"

text \<open>
  A Python \<^verbatim>\<open>float\<close>. A finite double is represented by the rational number it
  denotes, so comparison of finite values is exact; which double a decimal literal is
  rounded to is the business of \<^verbatim>\<open>float()\<close>, a library function (see \<open>pylib\<close>).
\<close>

datatype pyfloat = Fin rat | PInf | NInf | NaN

text \<open>\<^verbatim>\<open>x > y\<close> and \<^verbatim>\<open>x <= y\<close> on floats: every comparison with NaN is false.\<close>

fun float_gt :: "pyfloat \<Rightarrow> pyfloat \<Rightarrow> bool" where
  "float_gt NaN y = False"
| "float_gt x NaN = False"
| "float_gt (Fin a) (Fin b) = (b < a)"
| "float_gt (Fin a) PInf = False"
| "float_gt (Fin a) NInf = True"
| "float_gt PInf PInf = False"
| "float_gt PInf y = True"
| "float_gt NInf y = False"

fun float_le :: "pyfloat \<Rightarrow> pyfloat \<Rightarrow> bool" where
  "float_le NaN y = False"
| "float_le x NaN = False"
| "float_le (Fin a) (Fin b) = (a \<le> b)"
| "float_le (Fin a) PInf = True"
| "float_le (Fin a) NInf = False"
| "float_le PInf PInf = True"
| "float_le PInf y = False"
| "float_le NInf y = True"

text \<open>
  What \<^verbatim>\<open>response.json()\<close> returns: \<^verbatim>\<open>None\<close>, \<^verbatim>\<open>bool\<close>, \<^verbatim>\<open>int\<close>,
  \<^verbatim>\<open>float\<close>, \<^verbatim>\<open>str\<close>, \<^verbatim>\<open>list\<close> or \<^verbatim>\<open>dict\<close>. A dict lists its
  items in insertion order, each key once; lookups go through \<open>map_of\<close>.
\<close>

datatype json =
    JNull
  | JBool bool
  | JInt int
  | JFloat pyfloat
  | JStr string
  | JArr "json list"
  | JObj "(string \<times> json) list"

text \<open>
  Exceptions. \<open>ValueError msg\<close> is a \<^verbatim>\<open>raise ValueError(msg)\<close> of the source; the
  \<open>Py...\<close> errors are raised by the interpreter or the standard library
  (\<open>PyValueError\<close>: \<^verbatim>\<open>int()\<close>, \<^verbatim>\<open>float()\<close>, tuple unpacking);
  the last four come from httpx, the JSON decoder and the MCP session.
\<close>

datatype error =
    ValueError string
  | PyValueError
  | PyTypeError
  | PyAttributeError
  | PyIndexError
  | PyKeyError
  | PyOverflowError
  | TransportError
  | HTTPStatusError nat
  | JSONDecodeError
  | ElicitError

definition res_bind :: "error + 'a \<Rightarrow> ('a \<Rightarrow> error + 'b) \<Rightarrow> error + 'b" where
  "res_bind r f = (case r of Inl e \<Rightarrow> Inl e | Inr x \<Rightarrow> f x)"

text \<open>
  Library functions whose results depend on CPython's floating-point, integer and date
  formatting routines are parameters of the model:
  \<^item> \<open>float_of_str s\<close> is \<^verbatim>\<open>float(s)\<close> for a string (\<open>None\<close>: ValueError);
  \<^item> \<open>float_of_int n\<close> is \<^verbatim>\<open>float(n)\<close> for an integer beyond \<open>2 ^ 53\<close> in
    magnitude (\<open>None\<close>: OverflowError);
  \<^item> \<open>int_of_str s\<close> is \<^verbatim>\<open>int(s)\<close> for a string (\<open>None\<close>: ValueError);
  \<^item> \<open>repr_float x\<close> is the text an f-string gives for a float;
  \<^item> \<open>strftime_utc_ms n\<close> is
    \<^verbatim>\<open>datetime.fromtimestamp(n / 1000, tz=timezone.utc).strftime('%Y-%m-%dT%H:%M:%S.%f')\<close>
    for an integer \<open>n\<close> (\<open>None\<close>: the timestamp is out of range);
  \<^item> \<open>json_dumps v\<close> is \<^verbatim>\<open>json.dumps(v)\<close> and \<open>json_dumps_indent2 v\<close> is
    \<^verbatim>\<open>json.dumps(v, indent=2)\<close>.
\<close>

record pylib =
  float_of_str :: "string \<Rightarrow> pyfloat option"
  float_of_int :: "int \<Rightarrow> pyfloat option"
  int_of_str :: "string \<Rightarrow> int option"
  repr_float :: "pyfloat \<Rightarrow> string"
  strftime_utc_ms :: "int \<Rightarrow> string option"
  json_dumps :: "json \<Rightarrow> string"
  json_dumps_indent2 :: "json \<Rightarrow> string"

text \<open>\<^verbatim>\<open>float(v)\<close>; integers up to \<open>2 ^ 53\<close> in magnitude are doubles.\<close>

fun py_float :: "pylib \<Rightarrow> json \<Rightarrow> error + pyfloat" where
  "py_float lib (JStr s) =
     (case float_of_str lib s of None \<Rightarrow> Inl PyValueError | Some x \<Rightarrow> Inr x)"
| "py_float lib (JInt n) =
     (if \<bar>n\<bar> \<le> 2 ^ 53 then Inr (Fin (of_int n))
      else case float_of_int lib n of None \<Rightarrow> Inl PyOverflowError | Some x \<Rightarrow> Inr x)"
| "py_float lib (JFloat x) = Inr x"
| "py_float lib (JBool b) = Inr (Fin (if b then 1 else 0))"
| "py_float lib v = Inl PyTypeError"

text \<open>\<^verbatim>\<open>int(v)\<close>; a float is truncated towards zero.\<close>

fun py_int :: "pylib \<Rightarrow> json \<Rightarrow> error + int" where
  "py_int lib (JStr s) =
     (case int_of_str lib s of None \<Rightarrow> Inl PyValueError | Some n \<Rightarrow> Inr n)"
| "py_int lib (JInt n) = Inr n"
| "py_int lib (JBool b) = Inr (if b then 1 else 0)"
| "py_int lib (JFloat (Fin r)) = Inr (if 0 \<le> r then \<lfloor>r\<rfloor> else \<lceil>r\<rceil>)"
| "py_int lib (JFloat NaN) = Inl PyValueError"
| "py_int lib (JFloat x) = Inl PyOverflowError"
| "py_int lib v = Inl PyTypeError"

text \<open>The code points of a string: a lead byte with its continuation bytes.\<close>

definition is_continuation :: "char \<Rightarrow> bool" where
  "is_continuation c = (128 \<le> (of_char c :: nat) \<and> (of_char c :: nat) < 192)"

function code_points :: "string \<Rightarrow> string list" where
  "code_points [] = []"
| "code_points (c # cs) =
     (c # takeWhile is_continuation cs) # code_points (dropWhile is_continuation cs)"
  by pat_completeness auto
termination
  by (relation "measure length") (auto simp: length_dropWhile_le le_imp_less_Suc)

text \<open>\<^verbatim>\<open>d.get(k, default)\<close>: only a dict has the method.\<close>

fun dict_get :: "json \<Rightarrow> string \<Rightarrow> json \<Rightarrow> error + json" where
  "dict_get (JObj kvs) k dflt = Inr (case map_of kvs k of None \<Rightarrow> dflt | Some v \<Rightarrow> v)"
| "dict_get v k dflt = Inl PyAttributeError"

text \<open>\<^verbatim>\<open>v[k]\<close> for a string key \<open>k\<close>.\<close>

fun getitem_str :: "json \<Rightarrow> string \<Rightarrow> error + json" where
  "getitem_str (JObj kvs) k = (case map_of kvs k of None \<Rightarrow> Inl PyKeyError | Some v \<Rightarrow> Inr v)"
| "getitem_str v k = Inl PyTypeError"

text \<open>\<^verbatim>\<open>v[0]\<close>.\<close>

fun getitem_0 :: "json \<Rightarrow> error + json" where
  "getitem_0 (JArr []) = Inl PyIndexError"
| "getitem_0 (JArr (x # xs)) = Inr x"
| "getitem_0 (JStr s) = (case code_points s of [] \<Rightarrow> Inl PyIndexError | c # cs \<Rightarrow> Inr (JStr c))"
| "getitem_0 (JObj kvs) = Inl PyKeyError"
| "getitem_0 v = Inl PyTypeError"

text \<open>The values a \<^verbatim>\<open>for\<close> loop over \<open>v\<close> visits.\<close>

fun py_iter :: "json \<Rightarrow> error + json list" where
  "py_iter (JArr xs) = Inr xs"
| "py_iter (JObj kvs) = Inr (map (\<lambda>kv. JStr (fst kv)) kvs)"
| "py_iter (JStr s) = Inr (map JStr (code_points s))"
| "py_iter v = Inl PyTypeError"

text \<open>\<^verbatim>\<open>s.split(sep)\<close> for a one-character separator.\<close>

fun split_on :: "char \<Rightarrow> string \<Rightarrow> string list" where
  "split_on sep [] = [[]]"
| "split_on sep (c # cs) =
     (if c = sep then [] # split_on sep cs
      else case split_on sep cs of [] \<Rightarrow> [[c]] | p # ps \<Rightarrow> (c # p) # ps)"

text \<open>\<^verbatim>\<open>a, b = parts\<close>.\<close>

fun unpack2 :: "string list \<Rightarrow> error + string \<times> string" where
  "unpack2 [a, b] = Inr (a, b)"
| "unpack2 parts = Inl PyValueError"

text \<open>
  \<^verbatim>\<open>s.upper()\<close>. The ASCII letters are mapped to upper case; all other bytes are kept
  (Python also maps the non-ASCII letters that have an upper-case form).
\<close>

definition upper_char :: "char \<Rightarrow> char" where
  "upper_char c =
     (if 97 \<le> (of_char c :: nat) \<and> (of_char c :: nat) \<le> 122
      then char_of ((of_char c :: nat) - 32) else c)"

definition upper :: "string \<Rightarrow> string" where
  "upper s = map upper_char s"

text \<open>Truthiness of an optional string: \<^verbatim>\<open>None\<close> and \<^verbatim>\<open>''\<close> are false.\<close>

fun truthy :: "string option \<Rightarrow> string option" where
  "truthy None = None"
| "truthy (Some s) = (if s = [] then None else Some s)"


text \<open>A parameter with a default value: \<open>None\<close> when the caller leaves it out.\<close>

fun default_arg :: "'a \<Rightarrow> 'a option \<Rightarrow> 'a" where
  "default_arg d None = d"
| "default_arg d (Some x) = x"

section \<open>SHA-256, HMAC and base64\<close>

text \<open>
  \<^verbatim>\<open>hmac.new(key, msg, digestmod='sha256').digest()\<close> and \<^verbatim>\<open>base64.b64encode\<close>
  of the standard library, after FIPS 180-4, RFC 2104 and RFC 4648.
\<close>

type_synonym u32 = "32 word"

definition rotr :: "nat \<Rightarrow> u32 \<Rightarrow> u32" where
  "rotr n x = drop_bit n x OR push_bit (32 - n) x"

definition Ch :: "u32 \<Rightarrow> u32 \<Rightarrow> u32 \<Rightarrow> u32" where
  "Ch x y z = (x AND y) XOR (NOT x AND z)"

definition Maj :: "u32 \<Rightarrow> u32 \<Rightarrow> u32 \<Rightarrow> u32" where
  "Maj x y z = (x AND y) XOR (x AND z) XOR (y AND z)"

definition Sigma0 :: "u32 \<Rightarrow> u32" where
  "Sigma0 x = rotr 2 x XOR rotr 13 x XOR rotr 22 x"

definition Sigma1 :: "u32 \<Rightarrow> u32" where
  "Sigma1 x = rotr 6 x XOR rotr 11 x XOR rotr 25 x"

definition sigma0 :: "u32 \<Rightarrow> u32" where
  "sigma0 x = rotr 7 x XOR rotr 18 x XOR drop_bit 3 x"

definition sigma1 :: "u32 \<Rightarrow> u32" where
  "sigma1 x = rotr 17 x XOR rotr 19 x XOR drop_bit 10 x"

text \<open>The round constants and the initial hash value of FIPS 180-4, in decimal.\<close>

definition K256 :: "u32 list" where
  "K256 =
    [1116352408, 1899447441, 3049323471, 3921009573, 961987163, 1508970993,
     2453635748, 2870763221, 3624381080, 310598401, 607225278, 1426881987,
     1925078388, 2162078206, 2614888103, 3248222580, 3835390401, 4022224774,
     264347078, 604807628, 770255983, 1249150122, 1555081692, 1996064986,
     2554220882, 2821834349, 2952996808, 3210313671, 3336571891, 3584528711,
     113926993, 338241895, 666307205, 773529912, 1294757372, 1396182291,
     1695183700, 1986661051, 2177026350, 2456956037, 2730485921, 2820302411,
     3259730800, 3345764771, 3516065817, 3600352804, 4094571909, 275423344,
     430227734, 506948616, 659060556, 883997877, 958139571, 1322822218,
     1537002063, 1747873779, 1955562222, 2024104815, 2227730452, 2361852424,
     2428436474, 2756734187, 3204031479, 3329325298]"

type_synonym sha_state = "u32 \<times> u32 \<times> u32 \<times> u32 \<times> u32 \<times> u32 \<times> u32 \<times> u32"

definition H256 :: sha_state where
  "H256 = (1779033703, 3144134277, 1013904242, 2773480762,
           1359893119, 2600822924, 528734635, 1541459225)"

fun be32 :: "byte list \<Rightarrow> u32 list" where
  "be32 (a # b # c # d # rest) =
     (push_bit 24 (ucast a) OR push_bit 16 (ucast b) OR push_bit 8 (ucast c) OR ucast d)
       # be32 rest"
| "be32 bs = []"

definition bytes_of_u32 :: "u32 \<Rightarrow> byte list" where
  "bytes_of_u32 w = [ucast (drop_bit 24 w), ucast (drop_bit 16 w), ucast (drop_bit 8 w), ucast w]"

definition bytes_of_u64 :: "64 word \<Rightarrow> byte list" where
  "bytes_of_u64 w = map (\<lambda>i. ucast (drop_bit (8 * (7 - i)) w)) [0..<8]"

definition pad :: "byte list \<Rightarrow> byte list" where
  "pad m = m @ [0x80] @ replicate ((119 - length m mod 64) mod 64) 0
             @ bytes_of_u64 (of_nat (8 * length m))"

fun schedule :: "nat \<Rightarrow> u32 list \<Rightarrow> u32 list" where
  "schedule 0 w = w"
| "schedule (Suc n) w =
     schedule n (w @ [sigma1 (w ! (length w - 2)) + w ! (length w - 7)
                      + sigma0 (w ! (length w - 15)) + w ! (length w - 16)])"

fun rounds :: "u32 list \<Rightarrow> u32 list \<Rightarrow> sha_state \<Rightarrow> sha_state" where
  "rounds (k # ks) (w # ws) (a, b, c, d, e, f, g, h) =
     (let t1 = h + Sigma1 e + Ch e f g + k + w;
          t2 = Sigma0 a + Maj a b c
      in rounds ks ws (t1 + t2, a, b, c, d + t1, e, f, g))"
| "rounds ks ws s = s"

definition compress :: "sha_state \<Rightarrow> u32 list \<Rightarrow> sha_state" where
  "compress s block =
     (case (s, rounds K256 (schedule 48 block) s) of
        ((a, b, c, d, e, f, g, h), (a', b', c', d', e', f', g', h')) \<Rightarrow>
          (a + a', b + b', c + c', d + d', e + e', f + f', g + g', h + h'))"

fun blocks :: "sha_state \<Rightarrow> u32 list \<Rightarrow> sha_state" where
  "blocks s ws = (if length ws < 16 then s else blocks (compress s (take 16 ws)) (drop 16 ws))"

declare blocks.simps [simp del]

definition sha256 :: "byte list \<Rightarrow> byte list" where
  "sha256 m =
     (case blocks H256 (be32 (pad m)) of
        (a, b, c, d, e, f, g, h) \<Rightarrow> concat (map bytes_of_u32 [a, b, c, d, e, f, g, h]))"

definition hmac_sha256 :: "byte list \<Rightarrow> byte list \<Rightarrow> byte list" where
  "hmac_sha256 key msg =
     (let k0 = (if 64 < length key then sha256 key else key);
          k = k0 @ replicate (64 - length k0) 0
      in sha256 (map (\<lambda>b. b XOR 0x5c) k @ sha256 (map (\<lambda>b. b XOR 0x36) k @ msg)))"

definition b64_char :: "nat \<Rightarrow> char" where
  "b64_char n =
     ''ABCDEFGHIJKLMNOPQRSTUVWXYZabcdefghijklmnopqrstuvwxyz0123456789+/'' ! n"

fun b64encode :: "byte list \<Rightarrow> string" where
  "b64encode (a # b # c # rest) =
     (let n = unat a * 65536 + unat b * 256 + unat c
      in [b64_char (n div 262144), b64_char (n div 4096 mod 64),
          b64_char (n div 64 mod 64), b64_char (n mod 64)]) @ b64encode rest"
| "b64encode [a, b] =
     (let n = unat a * 65536 + unat b * 256
      in [b64_char (n div 262144), b64_char (n div 4096 mod 64),
          b64_char (n div 64 mod 64), CHR ''=''])"
| "b64encode [a] =
     (let n = unat a * 65536
      in [b64_char (n div 262144), b64_char (n div 4096 mod 64), CHR ''='', CHR ''=''])"
| "b64encode [] = []"

text \<open>\<^verbatim>\<open>bytes(s, 'utf-8')\<close>: the string is its UTF-8 encoding already.\<close>

definition utf8 :: "string \<Rightarrow> byte list" where
  "utf8 s = map (\<lambda>c. of_nat (of_char c)) s"

section \<open>Configuration and effects\<close>

text \<open>
  The module-level constants read from \<^verbatim>\<open>key.env\<close> (lines 19-23). \<^verbatim>\<open>env.get\<close>
  gives \<^verbatim>\<open>None\<close> for a missing key; \<open>BASE_URL\<close> has a default and is a string.
\<close>

record config =
  API_KEY :: "string option"
  API_SECRET :: "string option"
  API_PASSPHRASE :: "string option"
  BASE_URL :: string

text \<open>
  What the program does to the outside world, in order: HTTP requests (URL, headers and,
  for a POST, the content) and prompts sent through \<^verbatim>\<open>ctx.elicit\<close> (the message).
\<close>

type_synonym headers = "(string \<times> string) list"

datatype event =
    HttpGet string headers
  | HttpPost string headers string
  | Elicit string

record response =
  status_code :: nat
  body_json :: "json option"

datatype http_outcome = Unreachable | Replied response

text \<open>
  The network answers a request as a function of everything sent so far, the request
  itself being the last event. \<open>Unreachable\<close> is any exception of the HTTP client while
  sending; \<open>body_json = None\<close> is a body that is not JSON.
\<close>

type_synonym network = "event list \<Rightarrow> http_outcome"

text \<open>The pydantic model of lines 107-110 and the result of \<^verbatim>\<open>ctx.elicit\<close>.\<close>

record OrderElicitation =
  tryAgain :: bool
  newSize :: string

record elicitation_result =
  action :: string
  data :: "OrderElicitation option"

datatype elicit_outcome = ElicitFails | ElicitReturns elicitation_result

type_synonym Context = "event list \<Rightarrow> elicit_outcome"

text \<open>
  A coroutine of the program: it extends the trace of events and either raises or
  returns.
\<close>

type_synonym 'a io = "event list \<Rightarrow> (error + 'a) \<times> event list"

definition io_return :: "'a \<Rightarrow> 'a io" where
  "io_return x = (\<lambda>tr. (Inr x, tr))"

definition io_raise :: "error \<Rightarrow> 'a io" where
  "io_raise e = (\<lambda>tr. (Inl e, tr))"

definition io_lift :: "error + 'a \<Rightarrow> 'a io" where
  "io_lift r = (\<lambda>tr. (r, tr))"

definition io_bind :: "'a io \<Rightarrow> ('a \<Rightarrow> 'b io) \<Rightarrow> 'b io" where
  "io_bind m f = (\<lambda>tr. case m tr of (Inl e, tr') \<Rightarrow> (Inl e, tr') | (Inr x, tr') \<Rightarrow> f x tr')"

definition http_get :: "network \<Rightarrow> string \<Rightarrow> headers \<Rightarrow> response io" where
  "http_get net url hs =
     (\<lambda>tr. let tr' = tr @ [HttpGet url hs]
           in (case net tr' of Unreachable \<Rightarrow> Inl TransportError | Replied r \<Rightarrow> Inr r, tr'))"

definition http_post :: "network \<Rightarrow> string \<Rightarrow> headers \<Rightarrow> string \<Rightarrow> response io" where
  "http_post net url hs content =
     (\<lambda>tr. let tr' = tr @ [HttpPost url hs content]
           in (case net tr' of Unreachable \<Rightarrow> Inl TransportError | Replied r \<Rightarrow> Inr r, tr'))"

definition ctx_elicit :: "Context \<Rightarrow> string \<Rightarrow> elicitation_result io" where
  "ctx_elicit ctx message =
     (\<lambda>tr. let tr' = tr @ [Elicit message]
           in (case ctx tr' of ElicitFails \<Rightarrow> Inl ElicitError | ElicitReturns r \<Rightarrow> Inr r, tr'))"

text \<open>\<^verbatim>\<open>response.raise_for_status()\<close>: anything but 2xx raises.\<close>

definition raise_for_status :: "response \<Rightarrow> unit io" where
  "raise_for_status r =
     (if 200 \<le> status_code r \<and> status_code r < 300 then io_return ()
      else io_raise (HTTPStatusError (status_code r)))"

definition response_json :: "response \<Rightarrow> json io" where
  "response_json r =
     (case body_json r of None \<Rightarrow> io_raise JSONDecodeError | Some j \<Rightarrow> io_return j)"

section \<open>Clock and signer (lines 29-60)\<close>

definition get_okx_server_time :: "pylib \<Rightarrow> config \<Rightarrow> network \<Rightarrow> string io" where
  "get_okx_server_time lib cfg net =
     io_bind (http_get net (BASE_URL cfg @ ''/api/v5/public/time'') []) (\<lambda>resp.
     io_bind (raise_for_status resp) (\<lambda>u.
     io_bind (response_json resp) (\<lambda>j.
     io_lift (
       res_bind (getitem_str j ''data'') (\<lambda>d.
       res_bind (getitem_0 d) (\<lambda>d0.
       res_bind (getitem_str d0 ''ts'') (\<lambda>ts.
       res_bind (py_int lib ts) (\<lambda>n.
       case strftime_utc_ms lib n of
         None \<Rightarrow> Inl PyOverflowError
       | Some s \<Rightarrow> Inr (take (length s - 3) s @ ''Z'')))))))))"

definition get_okx_signature ::
  "config \<Rightarrow> string \<Rightarrow> string \<Rightarrow> string \<Rightarrow> string option \<Rightarrow> error + string" where
  "get_okx_signature cfg timestamp method request_path body =
     (case truthy (API_SECRET cfg) of
        None \<Rightarrow> Inl (ValueError ''API_SECRET not found in environment variables.'')
      | Some secret \<Rightarrow>
          let message = timestamp @ upper method @ request_path @ default_arg [] body;
              mac = hmac_sha256 (utf8 secret) (utf8 message)
          in Inr (b64encode mac))"

text \<open>The dict returned by lines 53-60.\<close>

definition header_dict :: "string \<Rightarrow> string \<Rightarrow> string \<Rightarrow> string \<Rightarrow> headers" where
  "header_dict key signature timestamp passphrase =
     [(''Content-Type'', ''application/json''),
      (''OK-ACCESS-KEY'', key),
      (''OK-ACCESS-SIGN'', signature),
      (''OK-ACCESS-TIMESTAMP'', timestamp),
      (''OK-ACCESS-PASSPHRASE'', passphrase),
      (''x-simulated-trading'', ''0'')]"

definition get_okx_headers ::
  "pylib \<Rightarrow> config \<Rightarrow> network \<Rightarrow> string \<Rightarrow> string \<Rightarrow> string option \<Rightarrow> string option
     \<Rightarrow> headers io" where
  "get_okx_headers lib cfg net method request_path body timestamp =
     (case (truthy (API_KEY cfg), truthy (API_PASSPHRASE cfg)) of
        (Some key, Some passphrase) \<Rightarrow>
          io_bind (case truthy timestamp of
                     None \<Rightarrow> get_okx_server_time lib cfg net
                   | Some t \<Rightarrow> io_return t) (\<lambda>timestamp.
          io_bind (io_lift (get_okx_signature cfg timestamp method request_path
                     (Some (default_arg [] body)))) (\<lambda>signature.
          io_return (header_dict key signature timestamp passphrase)))
      | other \<Rightarrow>
          io_raise (ValueError
            ''API_KEY or API_PASSPHRASE not found in environment variables.''))"

section \<open>The read-only tools (lines 63-105)\<close>

text \<open>
  The three tools and the balance check of \<^verbatim>\<open>create_order\<close> (lines 120-126) run the
  same five lines: fetch the server time, build the headers, GET, raise on an error
  status, decode the JSON body.
\<close>

definition signed_get_json :: "pylib \<Rightarrow> config \<Rightarrow> network \<Rightarrow> string \<Rightarrow> json io" where
  "signed_get_json lib cfg net request_path =
     io_bind (get_okx_server_time lib cfg net) (\<lambda>timestamp.
     io_bind (get_okx_headers lib cfg net ''GET'' request_path None (Some timestamp)) (\<lambda>headers.
     io_bind (http_get net (BASE_URL cfg @ request_path) headers) (\<lambda>response.
     io_bind (raise_for_status response) (\<lambda>u.
     response_json response))))"

definition signed_get :: "pylib \<Rightarrow> config \<Rightarrow> network \<Rightarrow> string \<Rightarrow> string io" where
  "signed_get lib cfg net request_path =
     io_bind (signed_get_json lib cfg net request_path) (\<lambda>j.
     io_return (json_dumps_indent2 lib j))"

definition get_balance :: "pylib \<Rightarrow> config \<Rightarrow> network \<Rightarrow> string io" where
  "get_balance lib cfg net = signed_get lib cfg net ''/api/v5/account/balance''"

definition get_ticker :: "pylib \<Rightarrow> config \<Rightarrow> network \<Rightarrow> string \<Rightarrow> string io" where
  "get_ticker lib cfg net instId =
     signed_get lib cfg net (''/api/v5/market/ticker?instId='' @ instId)"

definition get_kline :: "pylib \<Rightarrow> config \<Rightarrow> network \<Rightarrow> string \<Rightarrow> string option \<Rightarrow> string io" where
  "get_kline lib cfg net instId bar =
     signed_get lib cfg net
       (''/api/v5/market/candles?instId='' @ instId @ ''&bar='' @ default_arg ''1H'' bar)"

section \<open>The order workflow (lines 112-164)\<close>

text \<open>The loop of lines 132-135 over the detail entries, \<open>available\<close> starting at 0.0.\<close>

fun scan_details :: "pylib \<Rightarrow> string \<Rightarrow> json list \<Rightarrow> error + pyfloat" where
  "scan_details lib ccy [] = Inr (Fin 0)"
| "scan_details lib ccy (acc # rest) =
     res_bind (dict_get acc ''ccy'' JNull) (\<lambda>c.
       if c = JStr ccy
       then res_bind (dict_get acc ''availBal'' (JInt 0)) (py_float lib)
       else scan_details lib ccy rest)"

text \<open>Lines 131-135: \<^verbatim>\<open>balance_data.get('data', [{}])[0].get('details', [])\<close> and the loop.\<close>

definition resolve_available :: "pylib \<Rightarrow> string \<Rightarrow> json \<Rightarrow> error + pyfloat" where
  "resolve_available lib ccy balance_data =
     res_bind (dict_get balance_data ''data'' (JArr [JObj []])) (\<lambda>d.
     res_bind (getitem_0 d) (\<lambda>account.
     res_bind (dict_get account ''details'' (JArr [])) (\<lambda>details.
     res_bind (py_iter details) (scan_details lib ccy))))"

text \<open>Lines 119-135: the balance query, the checked currency and its available amount.\<close>

definition check_balance ::
  "pylib \<Rightarrow> config \<Rightarrow> network \<Rightarrow> string \<Rightarrow> string \<Rightarrow> (string \<times> pyfloat) io" where
  "check_balance lib cfg net instId side =
     io_bind (signed_get_json lib cfg net ''/api/v5/account/balance'') (\<lambda>balance_data.
     io_bind (io_lift (unpack2 (split_on CHR ''-'' instId))) (\<lambda>(base_ccy, quote_ccy).
     let ccy = (if side = ''buy'' then quote_ccy else base_ccy)
     in io_bind (io_lift (resolve_available lib ccy balance_data)) (\<lambda>available.
        io_return (ccy, available))))"

text \<open>The three literals of lines 140, 146 and 148.\<close>

definition elicit_message :: "pylib \<Rightarrow> string \<Rightarrow> pyfloat \<Rightarrow> string \<Rightarrow> string" where
  "elicit_message lib ccy available sz =
     [CHR 0xE5, CHR 0xBD, CHR 0x93, CHR 0xE5, CHR 0x89, CHR 0x8D] @ ccy
     @ [CHR 0xE5, CHR 0x8F, CHR 0xAF, CHR 0xE7, CHR 0x94, CHR 0xA8, CHR 0xE4, CHR 0xBD, CHR 0x99,
        CHR 0xE9, CHR 0xA2, CHR 0x9D, CHR 0xE4, CHR 0xB8, CHR 0xBA] @ repr_float lib available
     @ [CHR 0xEF, CHR 0xBC, CHR 0x8C, CHR 0xE4, CHR 0xB8, CHR 0x8B, CHR 0xE5, CHR 0x8D, CHR 0x95,
        CHR 0xE6, CHR 0x95, CHR 0xB0, CHR 0xE9, CHR 0x87, CHR 0x8F] @ sz
     @ [CHR 0xE8, CHR 0xB6, CHR 0x85, CHR 0xE5, CHR 0x87, CHR 0xBA, CHR 0xE4, CHR 0xBD, CHR 0x99,
        CHR 0xE9, CHR 0xA2, CHR 0x9D, CHR 0xEF, CHR 0xBC, CHR 0x8C, CHR 0xE6, CHR 0x98, CHR 0xAF,
        CHR 0xE5, CHR 0x90, CHR 0xA6, CHR 0xE5, CHR 0xB0, CHR 0x9D, CHR 0xE8, CHR 0xAF, CHR 0x95,
        CHR 0xE6, CHR 0x9B, CHR 0xB4, CHR 0xE5, CHR 0xB0, CHR 0x8F, CHR 0xE7, CHR 0x9A, CHR 0x84,
        CHR 0xE6, CHR 0x95, CHR 0xB0, CHR 0xE9, CHR 0x87, CHR 0x8F, CHR 0xEF, CHR 0xBC, CHR 0x9F]"

definition cancelled_text :: string where
  "cancelled_text =
     ''[CANCELLED] ''
     @ [CHR 0xE4, CHR 0xBD, CHR 0x99, CHR 0xE9, CHR 0xA2, CHR 0x9D, CHR 0xE4, CHR 0xB8, CHR 0x8D,
        CHR 0xE8, CHR 0xB6, CHR 0xB3, CHR 0xEF, CHR 0xBC, CHR 0x8C, CHR 0xE8, CHR 0xAE, CHR 0xA2,
        CHR 0xE5, CHR 0x8D, CHR 0x95, CHR 0xE5, CHR 0xB7, CHR 0xB2, CHR 0xE5, CHR 0x8F, CHR 0x96,
        CHR 0xE6, CHR 0xB6, CHR 0x88]"

definition failed_text :: "pylib \<Rightarrow> string \<Rightarrow> pyfloat \<Rightarrow> string" where
  "failed_text lib ccy available =
     ''[FAILED] ''
     @ [CHR 0xE4, CHR 0xBD, CHR 0x99, CHR 0xE9, CHR 0xA2, CHR 0x9D, CHR 0xE4, CHR 0xB8, CHR 0x8D,
        CHR 0xE8, CHR 0xB6, CHR 0xB3, CHR 0xEF, CHR 0xBC, CHR 0x8C, CHR 0xE5, CHR 0x8F, CHR 0xAF,
        CHR 0xE7, CHR 0x94, CHR 0xA8] @ ccy
     @ [CHR 0xE4, CHR 0xB8, CHR 0xBA] @ repr_float lib available"

text \<open>
  Lines 137-148: the outcome of the size check is either the size to order or the text
  the tool returns at once.
\<close>

datatype decision = Submit string | Return string

definition negotiate ::
  "pylib \<Rightarrow> Context option \<Rightarrow> string \<Rightarrow> pyfloat \<Rightarrow> string \<Rightarrow> decision io" where
  "negotiate lib ctx ccy available sz =
     io_bind (io_lift (py_float lib (JStr sz))) (\<lambda>requested.
       if float_gt requested available then
         (case ctx of
            Some c \<Rightarrow>
              io_bind (ctx_elicit c (elicit_message lib ccy available sz)) (\<lambda>result.
                case data result of
                  Some d \<Rightarrow>
                    if action result = ''accept'' \<and> tryAgain d
                    then io_return (Submit (newSize d))
                    else io_return (Return cancelled_text)
                | None \<Rightarrow> io_return (Return cancelled_text))
          | None \<Rightarrow> io_return (Return (failed_text lib ccy available)))
       else io_return (Submit sz))"

text \<open>Lines 149-164: the order body, a fresh timestamp, the signed POST.\<close>

definition body_dict :: "string \<Rightarrow> string \<Rightarrow> string \<Rightarrow> string \<Rightarrow> string \<Rightarrow> json" where
  "body_dict instId tdMode side ordType sz =
     JObj [(''instId'', JStr instId), (''tdMode'', JStr tdMode), (''side'', JStr side),
           (''ordType'', JStr ordType), (''sz'', JStr sz)]"

definition place_order ::
  "pylib \<Rightarrow> config \<Rightarrow> network \<Rightarrow> string \<Rightarrow> string \<Rightarrow> string \<Rightarrow> string \<Rightarrow> string
     \<Rightarrow> string io" where
  "place_order lib cfg net instId side sz ordType tdMode =
     (let body_str = json_dumps lib (body_dict instId tdMode side ordType sz)
      in io_bind (get_okx_server_time lib cfg net) (\<lambda>timestamp.
         io_bind (get_okx_headers lib cfg net ''POST'' ''/api/v5/trade/order''
                    (Some body_str) (Some timestamp)) (\<lambda>headers.
         io_bind (http_post net (BASE_URL cfg @ ''/api/v5/trade/order'') headers body_str)
           (\<lambda>response.
         io_bind (raise_for_status response) (\<lambda>u.
         io_bind (response_json response) (\<lambda>j.
         io_return (json_dumps_indent2 lib j)))))))"

definition create_order ::
  "pylib \<Rightarrow> config \<Rightarrow> network \<Rightarrow> string \<Rightarrow> string \<Rightarrow> string \<Rightarrow> string option
     \<Rightarrow> string option \<Rightarrow> Context option \<Rightarrow> string io" where
  "create_order lib cfg net instId side sz ordType tdMode ctx =
     io_bind (check_balance lib cfg net instId side) (\<lambda>(ccy, available).
     io_bind (negotiate lib ctx ccy available sz) (\<lambda>d.
       case d of
         Return text \<Rightarrow> io_return text
       | Submit sz' \<Rightarrow>
           place_order lib cfg net instId side sz'
             (default_arg ''market'' ordType) (default_arg ''cash'' tdMode)))"

section \<open>The tool surface and the entry point (lines 167-183)\<close>

datatype tool_call =
    GetBalance
  | GetTicker string
  | GetKline string "string option"
  | CreateOrder string string string "string option" "string option" "Context option"

fun call_tool :: "pylib \<Rightarrow> config \<Rightarrow> network \<Rightarrow> tool_call \<Rightarrow> string io" where
  "call_tool lib cfg net GetBalance = get_balance lib cfg net"
| "call_tool lib cfg net (GetTicker instId) = get_ticker lib cfg net instId"
| "call_tool lib cfg net (GetKline instId bar) = get_kline lib cfg net instId bar"
| "call_tool lib cfg net (CreateOrder instId side sz ordType tdMode ctx) =
     create_order lib cfg net instId side sz ordType tdMode ctx"




section \<open>Observations on traces\<close>

fun is_post :: "event \<Rightarrow> bool" where
  "is_post (HttpPost url hs content) = True"
| "is_post e = False"

fun is_elicit :: "event \<Rightarrow> bool" where
  "is_elicit (Elicit m) = True"
| "is_elicit e = False"

text \<open>
  The replacement size of an accept-with-tryAgain outcome, if the outcome is one: the
  action is \<^verbatim>\<open>accept\<close>, there is data, and \<^verbatim>\<open>tryAgain\<close> is set.
\<close>

definition accepted_size :: "elicitation_result \<Rightarrow> string option" where
  "accepted_size result =
     (case data result of
        None \<Rightarrow> None
      | Some d \<Rightarrow> if action result = ''accept'' \<and> tryAgain d then Some (newSize d) else None)"

text \<open>
  The error of a configuration with a missing credential: lines 48-49 look at the key
  and the passphrase, lines 41-42 at the secret.
\<close>

definition config_error :: "config \<Rightarrow> error" where
  "config_error cfg =
     (if truthy (API_KEY cfg) = None \<or> truthy (API_PASSPHRASE cfg) = None
      then ValueError ''API_KEY or API_PASSPHRASE not found in environment variables.''
      else ValueError ''API_SECRET not found in environment variables.'')"

text \<open>A detail entry that is a dict and whose \<^verbatim>\<open>ccy\<close> is not the checked currency.\<close>

definition other_entry :: "string \<Rightarrow> json \<Rightarrow> bool" where
  "other_entry ccy e =
     (case e of JObj kvs \<Rightarrow> map_of kvs ''ccy'' \<noteq> Some (JStr ccy) | _ \<Rightarrow> False)"

text \<open>The string that line 43 builds and line 44 signs.\<close>

definition signed_message :: "string \<Rightarrow> string \<Rightarrow> string \<Rightarrow> string \<Rightarrow> string" where
  "signed_message timestamp method request_path body =
     timestamp @ upper method @ request_path @ body"

abbreviation time_request :: "config \<Rightarrow> event" where
  "time_request cfg \<equiv> HttpGet (BASE_URL cfg @ ''/api/v5/public/time'') []"

abbreviation balance_url :: "config \<Rightarrow> string" where
  "balance_url cfg \<equiv> BASE_URL cfg @ ''/api/v5/account/balance''"

abbreviation order_url :: "config \<Rightarrow> string" where
  "order_url cfg \<equiv> BASE_URL cfg @ ''/api/v5/trade/order''"





section \<open>The signer as the specification words it\<close>

text \<open>
  \<open>sign(secret, timestamp, method, path, body)\<close>: HMAC with SHA-256 over
  \<open>timestamp || UPPERCASE(method) || path || body\<close>, then base64 of the raw digest.
\<close>

definition spec_sign :: "string \<Rightarrow> string \<Rightarrow> string \<Rightarrow> string \<Rightarrow> string \<Rightarrow> string" where
  "spec_sign secret timestamp method path body =
     b64encode (hmac_sha256 (utf8 secret) (utf8 (timestamp @ upper method @ path @ body)))"

section \<open>Sample data\<close>

text \<open>
  CPython's results at the arguments the examples below use; the tables are empty
  elsewhere, and the examples do not look there.
\<close>

definition sample_lib :: pylib where
  \<open>sample_lib = \<lparr>
     float_of_str = map_of
       [(''1'', Fin 1), (''50'', Fin 50),
        (''0.001'', Fin (1152921504606847 / 1152921504606846976)),
        (''0.01'', Fin (5764607523034235 / 576460752303423488))],
     float_of_int = map_of [(9007199254740993, Fin 9007199254740992)],
     int_of_str = map_of [(''1597026383085'', 1597026383085)],
     repr_float = (\<lambda>x.
       if x = Fin 50 then ''50.0''
       else if x = Fin 1 then ''1.0''
       else if x = Fin (1152921504606847 / 1152921504606846976) then ''0.001''
       else []),
     strftime_utc_ms = map_of [(1597026383085, ''2020-08-10T02:26:23.085000'')],
     json_dumps = (\<lambda>v.
       if v = body_dict ''BTC-USDT'' ''cash'' ''buy'' ''market'' ''1''
       then ''{"instId": "BTC-USDT", "tdMode": "cash", "side": "buy", "ordType": "market", "sz": "1"}''
       else if v = body_dict ''BTC-USDT'' ''cash'' ''sell'' ''market'' ''0.001''
       then ''{"instId": "BTC-USDT", "tdMode": "cash", "side": "sell", "ordType": "market", "sz": "0.001"}''
       else []),
     json_dumps_indent2 = (\<lambda>v.
       if v = JObj [(''code'', JStr ''0''),
                    (''data'', JArr [JObj [(''ordId'', JStr ''312269865356374016''),
                                           (''sCode'', JStr ''0'')]])]
       then ''{'' @ [CHR 0x0A] @ ''  "code": "0",'' @ [CHR 0x0A] @ ''  "data": ['' @ [CHR 0x0A] @ ''    {'' @ [CHR 0x0A] @ ''      "ordId": "312269865356374016",'' @ [CHR 0x0A] @ ''      "sCode": "0"'' @ [CHR 0x0A] @ ''    }'' @ [CHR 0x0A] @ ''  ]'' @ [CHR 0x0A] @ ''}''
       else [])\<rparr>\<close>

definition sample_config :: config where
  "sample_config =
     \<lparr>API_KEY = Some ''key'', API_SECRET = Some ''secret'', API_PASSPHRASE = Some ''pass'',
      BASE_URL = ''https://www.okx.com''\<rparr>"

definition time_reply :: response where
  "time_reply =
     \<lparr>status_code = 200,
      body_json = Some (JObj [(''code'', JStr ''0''), (''msg'', JStr []),
                              (''data'', JArr [JObj [(''ts'', JStr ''1597026383085'')]])])\<rparr>"

definition balance_json :: json where
  "balance_json =
     JObj [(''code'', JStr ''0''),
       (''data'', JArr [JObj [(''details'', JArr
          [JObj [(''ccy'', JStr ''USDT''), (''availBal'', JStr ''50'')],
           JObj [(''ccy'', JStr ''BTC''), (''availBal'', JStr ''0.001'')],
           JObj [(''ccy'', JStr ''ETH''), (''availBal'', JStr ''1'')]])]])]"

definition balance_reply :: response where
  "balance_reply = \<lparr>status_code = 200, body_json = Some balance_json\<rparr>"

definition order_json :: json where
  "order_json =
     JObj [(''code'', JStr ''0''),
       (''data'', JArr [JObj [(''ordId'', JStr ''312269865356374016''),
                              (''sCode'', JStr ''0'')]])]"

definition order_reply :: response where
  "order_reply = \<lparr>status_code = 200, body_json = Some order_json\<rparr>"

text \<open>
  A balance reply with two accounts: the first holds ETH and two USDT entries, the
  second holds BTC.
\<close>

definition two_accounts :: json where
  "two_accounts =
     JObj [(''code'', JStr ''0''),
       (''data'', JArr
          [JObj [(''details'', JArr
             [JObj [(''ccy'', JStr ''ETH''), (''availBal'', JStr ''1'')],
              JObj [(''ccy'', JStr ''USDT''), (''availBal'', JStr ''50'')],
              JObj [(''ccy'', JStr ''USDT''), (''availBal'', JStr ''0.001'')]])],
           JObj [(''details'', JArr
             [JObj [(''ccy'', JStr ''BTC''), (''availBal'', JStr ''1'')]])]])]"

text \<open>An exchange that answers each request by its kind and URL alone.\<close>

fun reply_to :: "event \<Rightarrow> http_outcome" where
  "reply_to (HttpGet url hs) =
     (if url = ''https://www.okx.com/api/v5/public/time'' then Replied time_reply
      else if url = ''https://www.okx.com/api/v5/account/balance'' then Replied balance_reply
      else Replied \<lparr>status_code = 404, body_json = None\<rparr>)"
| "reply_to (HttpPost url hs content) = Replied order_reply"
| "reply_to (Elicit m) = Unreachable"

definition exchange :: network where
  "exchange tr = (case rev tr of [] \<Rightarrow> Unreachable | e # es \<Rightarrow> reply_to e)"

text \<open>The same exchange, unreachable after the first \<open>n\<close> events.\<close>

definition exchange_until :: "nat \<Rightarrow> network" where
  "exchange_until n tr = (if length tr \<le> n then exchange tr else Unreachable)"

definition accepting :: Context where
  "accepting tr =
     ElicitReturns \<lparr>action = ''accept'', data = Some \<lparr>tryAgain = True, newSize = ''0.001''\<rparr>\<rparr>"

definition declining :: Context where
  "declining tr = ElicitReturns \<lparr>action = ''decline'', data = None\<rparr>"

abbreviation sample_ts :: string where
  "sample_ts \<equiv> ''2020-08-10T02:26:23.085Z''"

abbreviation sample_balance_request :: event where
  "sample_balance_request \<equiv>
     HttpGet ''https://www.okx.com/api/v5/account/balance''
       (header_dict ''key'' (spec_sign ''secret'' sample_ts ''GET'' ''/api/v5/account/balance'' [])
          sample_ts ''pass'')"

abbreviation sample_small :: pyfloat where
  "sample_small \<equiv> Fin (1152921504606847 / 1152921504606846976)"

abbreviation sample_prompt :: event where
  "sample_prompt \<equiv> Elicit (elicit_message sample_lib ''BTC'' sample_small ''1'')"

abbreviation sample_acceptance :: elicitation_result where
  "sample_acceptance \<equiv>
     \<lparr>action = ''accept'', data = Some \<lparr>tryAgain = True, newSize = ''0.001''\<rparr>\<rparr>"

section \<open>Test vectors\<close>

text \<open>The hash of \<^verbatim>\<open>abc\<close> from FIPS 180-4 and the base64 examples of RFC 4648.\<close>

lemma sha256_abc:
  "sha256 [97, 98, 99] =
     [186, 120, 22, 191, 143, 1, 207, 234, 65, 65, 64, 222, 93, 174, 34, 35,
      176, 3, 97, 163, 150, 23, 122, 156, 180, 16, 255, 97, 242, 0, 21, 173]"
  by code_simp

lemma b64encode_vectors:
  "b64encode (utf8 ''f'') = ''Zg==''"
  "b64encode (utf8 ''fo'') = ''Zm8=''"
  "b64encode (utf8 ''foo'') = ''Zm9v''"
  "b64encode (utf8 ''foobar'') = ''Zm9vYmFy''"
  "b64encode [251, 255, 190] = ''+/++''"
  by (simp_all add: utf8_def b64_char_def Let_def)

section \<open>Running the coroutines\<close>

lemmas io_defs = io_bind_def io_return_def io_raise_def io_lift_def http_get_def http_post_def
  ctx_elicit_def raise_for_status_def response_json_def

lemma io_bind_Inr: "m tr = (Inr x, tr') \<Longrightarrow> io_bind m f tr = f x tr'"
  by (simp add: io_bind_def)

lemma io_bind_Inl: "m tr = (Inl e, tr') \<Longrightarrow> io_bind m f tr = (Inl e, tr')"
  by (simp add: io_bind_def)

text \<open>The clock sends exactly one request, and a timestamp it returns ends in \<open>Z\<close>.\<close>

lemma clock_trace:
  "snd (get_okx_server_time lib cfg net tr) = tr @ [time_request cfg]"
  by (simp add: get_okx_server_time_def io_defs Let_def
      split: http_outcome.split option.split prod.split sum.split)

lemma clock_result:
  obtains r where "get_okx_server_time lib cfg net tr = (r, tr @ [time_request cfg])"
  using clock_trace [of lib cfg net tr] by (cases "get_okx_server_time lib cfg net tr") auto

lemma clock_nonempty:
  assumes "get_okx_server_time lib cfg net tr = (Inr ts, tr')"
  shows "ts \<noteq> []"
  using assms
  by (auto simp: get_okx_server_time_def io_defs Let_def res_bind_def
      split: http_outcome.splits option.splits prod.splits sum.splits if_splits)

text \<open>The three outcomes of building headers for a given timestamp.\<close>

lemma headers_ok:
  assumes "truthy (API_KEY cfg) = Some k" "truthy (API_PASSPHRASE cfg) = Some p"
    "truthy (API_SECRET cfg) = Some s" "ts \<noteq> []"
  shows "get_okx_headers lib cfg net method path body (Some ts) tr =
           (Inr (header_dict k (spec_sign s ts method path (default_arg [] body)) ts p), tr)"
  using assms
  by (simp add: get_okx_headers_def get_okx_signature_def spec_sign_def io_defs Let_def)

lemma headers_no_key:
  assumes "truthy (API_KEY cfg) = None \<or> truthy (API_PASSPHRASE cfg) = None"
  shows "get_okx_headers lib cfg net method path body timestamp tr =
           (Inl (ValueError ''API_KEY or API_PASSPHRASE not found in environment variables.''),
            tr)"
  using assms
  by (auto simp: get_okx_headers_def io_defs split: option.splits)

lemma headers_no_secret:
  assumes "truthy (API_KEY cfg) = Some k" "truthy (API_PASSPHRASE cfg) = Some p"
    "truthy (API_SECRET cfg) = None" "ts \<noteq> []"
  shows "get_okx_headers lib cfg net method path body (Some ts) tr =
           (Inl (ValueError ''API_SECRET not found in environment variables.''), tr)"
  using assms
  by (simp add: get_okx_headers_def get_okx_signature_def io_defs Let_def)

text \<open>A signed GET that returns has found all three credentials and sent two requests.\<close>

lemma signed_get_json_ok:
  assumes "signed_get_json lib cfg net path tr = (Inr j, tr')"
  shows "\<exists>k s p ts. truthy (API_KEY cfg) = Some k \<and> truthy (API_SECRET cfg) = Some s
           \<and> truthy (API_PASSPHRASE cfg) = Some p
           \<and> get_okx_server_time lib cfg net tr = (Inr ts, tr @ [time_request cfg])
           \<and> tr' = tr @ [time_request cfg,
                 HttpGet (BASE_URL cfg @ path) (header_dict k (spec_sign s ts ''GET'' path []) ts p)]"
proof -
  obtain r where c: "get_okx_server_time lib cfg net tr = (r, tr @ [time_request cfg])"
    by (rule clock_result)
  show ?thesis
  proof (cases r)
    case (Inl e)
    with assms c show ?thesis by (simp add: signed_get_json_def io_bind_Inl)
  next
    case (Inr ts)
    with c have ne: "ts \<noteq> []" by (auto dest: clock_nonempty)
    show ?thesis
    proof (cases "truthy (API_KEY cfg) = None \<or> truthy (API_PASSPHRASE cfg) = None")
      case True
      from assms c Inr headers_no_key [OF True] show ?thesis
        by (simp add: signed_get_json_def io_bind_def)
    next
      case False
      then obtain k p
        where kp: "truthy (API_KEY cfg) = Some k" "truthy (API_PASSPHRASE cfg) = Some p"
        by auto
      show ?thesis
      proof (cases "truthy (API_SECRET cfg)")
        case None
        from assms c Inr headers_no_secret [OF kp None ne] show ?thesis
          by (simp add: signed_get_json_def io_bind_def)
      next
        case (Some s)
        from assms c Inr headers_ok [OF kp Some ne] kp Some show ?thesis
          by (auto simp: signed_get_json_def io_defs Let_def
              split: http_outcome.splits if_splits option.splits)
      qed
    qed
  qed
qed

lemma unpack2_Inr: "unpack2 parts = Inr (a, b) \<longleftrightarrow> parts = [a, b]"
  by (cases parts rule: unpack2.cases) auto

lemma check_balance_ok:
  assumes "check_balance lib cfg net instId side tr = (Inr (ccy, available), tr')"
  shows "\<exists>j base quote.
           signed_get_json lib cfg net ''/api/v5/account/balance'' tr = (Inr j, tr')
           \<and> split_on CHR ''-'' instId = [base, quote]
           \<and> ccy = (if side = ''buy'' then quote else base)
           \<and> resolve_available lib ccy j = Inr available"
proof -
  obtain r t1 where g: "signed_get_json lib cfg net ''/api/v5/account/balance'' tr = (r, t1)"
    by (cases "signed_get_json lib cfg net ''/api/v5/account/balance'' tr")
  show ?thesis
  proof (cases r)
    case (Inl e)
    with assms g show ?thesis by (simp add: check_balance_def io_bind_Inl)
  next
    case (Inr j)
    with assms g show ?thesis
      by (auto simp: check_balance_def io_defs Let_def unpack2_Inr
          split: sum.splits prod.splits if_splits)
  qed
qed

lemma check_balance_trace:
  assumes "check_balance lib cfg net instId side tr = (Inr (ccy, available), tr')"
  shows "\<exists>k s p hs. truthy (API_KEY cfg) = Some k \<and> truthy (API_SECRET cfg) = Some s
           \<and> truthy (API_PASSPHRASE cfg) = Some p
           \<and> tr' = tr @ [time_request cfg, HttpGet (balance_url cfg) hs]"
  using check_balance_ok [OF assms] signed_get_json_ok by blast

text \<open>The size check, case by case.\<close>

lemma float_le_not_gt: "float_le x y \<Longrightarrow> \<not> float_gt x y"
  by (induction x y rule: float_gt.induct) auto

lemma negotiate_sufficient:
  assumes "float_of_str lib sz = Some requested" "\<not> float_gt requested available"
  shows "negotiate lib ctx ccy available sz tr = (Inr (Submit sz), tr)"
  using assms by (simp add: negotiate_def io_defs)


lemma negotiate_elicit:
  assumes "float_of_str lib sz = Some requested" "float_gt requested available"
    and "c (tr @ [Elicit (elicit_message lib ccy available sz)]) = ElicitReturns result"
  shows "negotiate lib (Some c) ccy available sz tr =
           (Inr (case accepted_size result of
                   None \<Rightarrow> Return cancelled_text
                 | Some s \<Rightarrow> Submit s),
            tr @ [Elicit (elicit_message lib ccy available sz)])"
  using assms
  by (simp add: negotiate_def io_defs accepted_size_def Let_def split: option.split)

text \<open>Submission: one clock request, then the POST, unless the clock fails.\<close>

lemma place_order_run:
  assumes "truthy (API_KEY cfg) = Some k" "truthy (API_PASSPHRASE cfg) = Some p"
    "truthy (API_SECRET cfg) = Some s"
    and "get_okx_server_time lib cfg net tr = (Inr ts, tr1)"
  shows "snd (place_order lib cfg net instId side sz ordType tdMode tr) =
           tr1 @ [HttpPost (order_url cfg)
                   (header_dict k (spec_sign s ts ''POST'' ''/api/v5/trade/order''
                      (json_dumps lib (body_dict instId tdMode side ordType sz))) ts p)
                   (json_dumps lib (body_dict instId tdMode side ordType sz))]"
proof -
  from assms(4) have ne: "ts \<noteq> []" by (rule clock_nonempty)
  from assms(4) headers_ok [OF assms(1-3) ne] show ?thesis
    by (simp add: place_order_def io_defs Let_def
        split: http_outcome.split option.split)
qed

lemma place_order_clock_fails:
  assumes "get_okx_server_time lib cfg net tr = (Inl e, tr1)"
  shows "place_order lib cfg net instId side sz ordType tdMode tr = (Inl e, tr1)"
  using assms by (simp add: place_order_def io_bind_Inl Let_def)

lemma create_order_after_check:
  assumes "check_balance lib cfg net instId side tr = (Inr (ccy, available), tr1)"
  shows "create_order lib cfg net instId side sz ordType tdMode ctx tr =
           io_bind (negotiate lib ctx ccy available sz) (\<lambda>d.
             case d of
               Return text \<Rightarrow> io_return text
             | Submit sz' \<Rightarrow>
                 place_order lib cfg net instId side sz'
                   (default_arg ''market'' ordType) (default_arg ''cash'' tdMode)) tr1"
  using assms by (simp add: create_order_def io_bind_Inr)

lemma submit_run:
  assumes bal: "check_balance lib cfg net instId side [] = (Inr (ccy, available), tr)"
    and neg: "negotiate lib ctx ccy available sz tr = (Inr (Submit sz'), tr1)"
  shows "case fst (get_okx_server_time lib cfg net tr1) of
           Inr ts \<Rightarrow> \<exists>hs. snd (create_order lib cfg net instId side sz ordType tdMode ctx []) =
             tr1 @ [time_request cfg,
                    HttpPost (order_url cfg) hs
                      (json_dumps lib (body_dict instId (default_arg ''cash'' tdMode) side
                         (default_arg ''market'' ordType) sz'))]
         | Inl e \<Rightarrow> create_order lib cfg net instId side sz ordType tdMode ctx [] =
             (Inl e, tr1 @ [time_request cfg])"
proof -
  obtain k s p where cred: "truthy (API_KEY cfg) = Some k" "truthy (API_PASSPHRASE cfg) = Some p"
      "truthy (API_SECRET cfg) = Some s"
    using check_balance_trace [OF bal] by blast
  obtain r where c: "get_okx_server_time lib cfg net tr1 = (r, tr1 @ [time_request cfg])"
    by (rule clock_result)
  have co: "create_order lib cfg net instId side sz ordType tdMode ctx [] =
      place_order lib cfg net instId side sz'
        (default_arg ''market'' ordType) (default_arg ''cash'' tdMode) tr1"
    using neg by (simp add: create_order_after_check [OF bal] io_bind_def)
  show ?thesis
  proof (cases r)
    case (Inl e)
    with c co show ?thesis by (simp add: place_order_clock_fails)
  next
    case (Inr ts)
    with c co place_order_run [OF cred, of lib net tr1 ts] show ?thesis
      by simp
  qed
qed

lemma return_run:
  assumes bal: "check_balance lib cfg net instId side [] = (Inr (ccy, available), tr)"
    and neg: "negotiate lib ctx ccy available sz tr = (Inr (Return text), tr1)"
  shows "create_order lib cfg net instId side sz ordType tdMode ctx [] = (Inr text, tr1)"
  using neg by (simp add: create_order_after_check [OF bal] io_bind_def io_return_def)

section \<open>Sample runs\<close>

lemma sample_config_simps:
  "API_KEY sample_config = Some ''key''"
  "API_SECRET sample_config = Some ''secret''"
  "API_PASSPHRASE sample_config = Some ''pass''"
  "BASE_URL sample_config = ''https://www.okx.com''"
  by (simp_all add: sample_config_def)

lemma sample_lib_simps:
  "float_of_str sample_lib ''1'' = Some (Fin 1)"
  "float_of_str sample_lib ''50'' = Some (Fin 50)"
  "float_of_str sample_lib ''0.001'' = Some sample_small"
  "int_of_str sample_lib ''1597026383085'' = Some 1597026383085"
  "strftime_utc_ms sample_lib 1597026383085 = Some ''2020-08-10T02:26:23.085000''"
  "repr_float sample_lib (Fin 50) = ''50.0''"
  "repr_float sample_lib sample_small = ''0.001''"
  by (simp_all add: sample_lib_def)

lemma exchange_simps:
  "exchange (tr @ [e]) = reply_to e"
  "exchange_until n (tr @ [e]) = (if length tr < n then reply_to e else Unreachable)"
  by (auto simp add: exchange_def exchange_until_def)

lemma sample_clock_until:
  "get_okx_server_time sample_lib sample_config (exchange_until n) tr =
     (if length tr < n then Inr sample_ts else Inl TransportError,
      tr @ [time_request sample_config])"
  by (simp add: get_okx_server_time_def io_defs sample_config_simps sample_lib_simps
        exchange_simps time_reply_def res_bind_def Let_def)

lemma sample_clock:
  "get_okx_server_time sample_lib sample_config exchange tr =
     (Inr sample_ts, tr @ [time_request sample_config])"
  by (simp add: get_okx_server_time_def io_defs sample_config_simps sample_lib_simps
        exchange_simps time_reply_def res_bind_def Let_def)

lemma sample_headers:
  "get_okx_headers sample_lib sample_config net method path body (Some sample_ts) tr =
    (Inr (header_dict ''key'' (spec_sign ''secret'' sample_ts method path (default_arg [] body))
       sample_ts ''pass''), tr)"
  by (rule headers_ok) (simp_all add: sample_config_simps)

lemmas sample_check_simps = check_balance_def signed_get_json_def io_defs sample_headers
  sample_config_simps sample_lib_simps exchange_simps balance_reply_def balance_json_def
  res_bind_def Let_def resolve_available_def

lemma sample_check_buy_until:
  "2 \<le> n \<Longrightarrow>
   check_balance sample_lib sample_config (exchange_until n) ''BTC-USDT'' ''buy'' [] =
     (Inr (''USDT'', Fin 50), [time_request sample_config, sample_balance_request])"
  by (simp add: sample_clock_until sample_check_simps)

lemma sample_check_buy:
  "check_balance sample_lib sample_config exchange ''BTC-USDT'' ''buy'' [] =
     (Inr (''USDT'', Fin 50), [time_request sample_config, sample_balance_request])"
  by (simp add: sample_clock sample_check_simps)

lemma sample_check_sell_until:
  "2 \<le> n \<Longrightarrow>
   check_balance sample_lib sample_config (exchange_until n) ''BTC-USDT'' ''sell'' [] =
     (Inr (''BTC'', sample_small), [time_request sample_config, sample_balance_request])"
  by (simp add: sample_clock_until sample_check_simps)

lemma sample_check_sell:
  "check_balance sample_lib sample_config exchange ''BTC-USDT'' ''sell'' [] =
     (Inr (''BTC'', sample_small), [time_request sample_config, sample_balance_request])"
  by (simp add: sample_clock sample_check_simps)

section \<open>The order workflow: claims C1 to C4\<close>

text \<open>
  C1, as amended. Let the balance check of \<^verbatim>\<open>create_order\<close> resolve the available
  amount of the checked currency (the quote currency if side is \<^verbatim>\<open>buy\<close>, the base
  currency otherwise), and let the requested size, as a float, be at most that amount.
  Then \<^verbatim>\<open>ctx.elicit\<close> is never invoked and nothing is sent but the two requests of the
  balance check, one server-time request and, if that one succeeds, exactly one POST to
  the order path whose body is the serialisation of the order with the original size;
  if the server-time request fails, its error is raised and no order is submitted.
\<close>

theorem sufficient_balance_submits_original_size:
  assumes "check_balance lib cfg net instId side [] = (Inr (ccy, available), tr)"
    and "float_of_str lib sz = Some requested"
    and "float_le requested available"
  shows "(\<exists>base quote hs0.
            split_on CHR ''-'' instId = [base, quote]
            \<and> ccy = (if side = ''buy'' then quote else base)
            \<and> tr = [time_request cfg, HttpGet (balance_url cfg) hs0])
       \<and> (case fst (get_okx_server_time lib cfg net tr) of
             Inr ts \<Rightarrow> \<exists>hs. snd (create_order lib cfg net instId side sz ordType tdMode ctx []) =
               tr @ [time_request cfg,
                     HttpPost (order_url cfg) hs
                       (json_dumps lib (body_dict instId (default_arg ''cash'' tdMode) side
                          (default_arg ''market'' ordType) sz))]
           | Inl e \<Rightarrow> create_order lib cfg net instId side sz ordType tdMode ctx [] =
               (Inl e, tr @ [time_request cfg]))"
proof
  from check_balance_ok [OF assms(1)] check_balance_trace [OF assms(1)]
  show "\<exists>base quote hs0.
            split_on CHR ''-'' instId = [base, quote]
            \<and> ccy = (if side = ''buy'' then quote else base)
            \<and> tr = [time_request cfg, HttpGet (balance_url cfg) hs0]"
    by fastforce
next
  from assms(2,3) have "negotiate lib ctx ccy available sz tr = (Inr (Submit sz), tr)"
    by (simp add: negotiate_sufficient float_le_not_gt)
  from submit_run [OF assms(1) this]
  show "case fst (get_okx_server_time lib cfg net tr) of
             Inr ts \<Rightarrow> \<exists>hs. snd (create_order lib cfg net instId side sz ordType tdMode ctx []) =
               tr @ [time_request cfg,
                     HttpPost (order_url cfg) hs
                       (json_dumps lib (body_dict instId (default_arg ''cash'' tdMode) side
                          (default_arg ''market'' ordType) sz))]
           | Inl e \<Rightarrow> create_order lib cfg net instId side sz ordType tdMode ctx [] =
               (Inl e, tr @ [time_request cfg])" .
qed

text \<open>
  The amended C1 at work: buying on BTC-USDT with size 1 against 50 USDT available, on
  an exchange that answers every request.
\<close>

theorem sufficient_balance_witness:
  "check_balance sample_lib sample_config exchange ''BTC-USDT'' ''buy'' [] =
     (Inr (''USDT'', Fin 50), [time_request sample_config, sample_balance_request])
   \<and> float_of_str sample_lib ''1'' = Some (Fin 1)
   \<and> float_le (Fin 1) (Fin 50)
   \<and> (\<exists>hs. snd (create_order sample_lib sample_config exchange ''BTC-USDT'' ''buy'' ''1''
                 None None None []) =
         [time_request sample_config, sample_balance_request, time_request sample_config,
          HttpPost ''https://www.okx.com/api/v5/trade/order'' hs
            (json_dumps sample_lib (body_dict ''BTC-USDT'' ''cash'' ''buy'' ''market'' ''1''))])"
proof -
  have h1: "check_balance sample_lib sample_config exchange ''BTC-USDT'' ''buy'' [] =
     (Inr (''USDT'', Fin 50), [time_request sample_config, sample_balance_request])"
    by (rule sample_check_buy)
  have h2: "float_of_str sample_lib ''1'' = Some (Fin 1)"
    by (simp add: sample_lib_simps)
  have h3: "float_le (Fin 1) (Fin 50)" by simp
  from sufficient_balance_submits_original_size [OF h1 h2 h3, of None None None] h1 h2 h3
  show ?thesis
    by (simp add: sample_clock sample_config_simps)
qed

text \<open>
  C1 as stated fails: the same order on an exchange that becomes unreachable after the
  balance query. The size 1 is at most the 50 USDT available, the server-time request
  of line 159 raises, and no order is submitted.
\<close>

theorem sufficient_balance_no_order_counterexample:
  "check_balance sample_lib sample_config (exchange_until 2) ''BTC-USDT'' ''buy'' [] =
     (Inr (''USDT'', Fin 50), [time_request sample_config, sample_balance_request])
   \<and> float_of_str sample_lib ''1'' = Some (Fin 1)
   \<and> float_le (Fin 1) (Fin 50)
   \<and> create_order sample_lib sample_config (exchange_until 2) ''BTC-USDT'' ''buy'' ''1''
        None None None [] =
       (Inl TransportError,
        [time_request sample_config, sample_balance_request, time_request sample_config])
   \<and> filter is_post
        [time_request sample_config, sample_balance_request, time_request sample_config] = []"
proof -
  have h1: "check_balance sample_lib sample_config (exchange_until 2) ''BTC-USDT'' ''buy'' [] =
     (Inr (''USDT'', Fin 50), [time_request sample_config, sample_balance_request])"
    by (rule sample_check_buy_until) simp
  have h2: "float_of_str sample_lib ''1'' = Some (Fin 1)"
    by (simp add: sample_lib_simps)
  have h3: "float_le (Fin 1) (Fin 50)" by simp
  have "negotiate sample_lib None ''USDT'' (Fin 50) ''1''
          [time_request sample_config, sample_balance_request] =
        (Inr (Submit ''1''), [time_request sample_config, sample_balance_request])"
    using h2 by (simp add: negotiate_sufficient)
  from submit_run [OF h1 this, of None None] h1 h2 h3 show ?thesis
    by (simp add: sample_clock_until sample_config_simps)
qed


text \<open>
  C2. Let the balance check resolve the available amount, let the requested size exceed
  it, let a negotiation collaborator be present and answer the prompt, and let its
  answer be anything but accept-with-tryAgain. Then \<^verbatim>\<open>create_order\<close> returns the
  text that begins with \<^verbatim>\<open>[CANCELLED]\<close>, and all it has sent is the two requests of the
  balance check and the prompt: no POST.
\<close>

theorem declined_negotiation_cancels:
  assumes "check_balance lib cfg net instId side [] = (Inr (ccy, available), tr)"
    and "float_of_str lib sz = Some requested"
    and "float_gt requested available"
    and "c (tr @ [Elicit (elicit_message lib ccy available sz)]) = ElicitReturns result"
    and "accepted_size result = None"
  shows "create_order lib cfg net instId side sz ordType tdMode (Some c) [] =
            (Inr cancelled_text, tr @ [Elicit (elicit_message lib ccy available sz)])
       \<and> (\<exists>hs0. tr = [time_request cfg, HttpGet (balance_url cfg) hs0])
       \<and> filter is_post (tr @ [Elicit (elicit_message lib ccy available sz)]) = []
       \<and> take 11 cancelled_text = ''[CANCELLED]''"
proof -
  from negotiate_elicit [where c = c and tr = tr, OF assms(2,3,4)] assms(5)
  have neg: "negotiate lib (Some c) ccy available sz tr =
      (Inr (Return cancelled_text), tr @ [Elicit (elicit_message lib ccy available sz)])"
    by simp
  obtain hs0 where tr: "tr = [time_request cfg, HttpGet (balance_url cfg) hs0]"
    using check_balance_trace [OF assms(1)] by auto
  from return_run [OF assms(1) neg, of ordType tdMode] tr show ?thesis
    by (simp add: cancelled_text_def)
qed

text \<open>C2 at work: selling 1 BTC with 0.001 BTC available, the user declining.\<close>

theorem declined_negotiation_witness:
  "check_balance sample_lib sample_config exchange ''BTC-USDT'' ''sell'' [] =
     (Inr (''BTC'', sample_small), [time_request sample_config, sample_balance_request])
   \<and> float_of_str sample_lib ''1'' = Some (Fin 1)
   \<and> float_gt (Fin 1) sample_small
   \<and> declining [time_request sample_config, sample_balance_request,
                 Elicit (elicit_message sample_lib ''BTC'' sample_small ''1'')] =
       ElicitReturns \<lparr>action = ''decline'', data = None\<rparr>
   \<and> accepted_size \<lparr>action = ''decline'', data = None\<rparr> = None
   \<and> create_order sample_lib sample_config exchange ''BTC-USDT'' ''sell'' ''1'' None None
        (Some declining) [] =
       (Inr cancelled_text,
        [time_request sample_config, sample_balance_request,
         Elicit (elicit_message sample_lib ''BTC'' sample_small ''1'')])
   \<and> take 11 cancelled_text = ''[CANCELLED]''"
proof -
  have h1: "check_balance sample_lib sample_config exchange ''BTC-USDT'' ''sell'' [] =
     (Inr (''BTC'', sample_small), [time_request sample_config, sample_balance_request])"
    by (rule sample_check_sell)
  have h2: "float_of_str sample_lib ''1'' = Some (Fin 1)"
    by (simp add: sample_lib_simps)
  have h3: "float_gt (Fin 1) sample_small" by simp
  have h4: "declining ([time_request sample_config, sample_balance_request]
              @ [Elicit (elicit_message sample_lib ''BTC'' sample_small ''1'')]) =
       ElicitReturns \<lparr>action = ''decline'', data = None\<rparr>"
    by (simp add: declining_def)
  have h5: "accepted_size \<lparr>action = ''decline'', data = None\<rparr> = None"
    by (simp add: accepted_size_def)
  from declined_negotiation_cancels [where c = declining
      and tr = "[time_request sample_config, sample_balance_request]"
      and ordType = None and tdMode = None, OF h1 h2 h3 h4 h5] h1 h2 h3 h4 h5
  show ?thesis
    by (simp add: sample_config_simps)
qed

text \<open>
  C3, as amended. Let the balance check resolve the available amount, let the requested
  size exceed it, and let the negotiation collaborator accept with tryAgain and a
  replacement size. Then, after the prompt, the workflow sends one server-time request
  and, provided that request succeeds, exactly one POST to the order path whose body
  carries the replacement size; no balance query follows the prompt. If the server-time
  request fails, its error is raised and no order is submitted.
\<close>

theorem accepted_size_is_submitted:
  assumes "check_balance lib cfg net instId side [] = (Inr (ccy, available), tr)"
    and "float_of_str lib sz = Some requested"
    and "float_gt requested available"
    and "c (tr @ [Elicit (elicit_message lib ccy available sz)]) = ElicitReturns result"
    and "accepted_size result = Some sz'"
  shows "(\<exists>hs0. tr = [time_request cfg, HttpGet (balance_url cfg) hs0])
       \<and> (case fst (get_okx_server_time lib cfg net
                      (tr @ [Elicit (elicit_message lib ccy available sz)])) of
             Inr ts \<Rightarrow>
               \<exists>hs. snd (create_order lib cfg net instId side sz ordType tdMode (Some c) []) =
                 tr @ [Elicit (elicit_message lib ccy available sz), time_request cfg,
                       HttpPost (order_url cfg) hs
                         (json_dumps lib (body_dict instId (default_arg ''cash'' tdMode) side
                            (default_arg ''market'' ordType) sz'))]
           | Inl e \<Rightarrow>
               create_order lib cfg net instId side sz ordType tdMode (Some c) [] =
                 (Inl e, tr @ [Elicit (elicit_message lib ccy available sz), time_request cfg]))"
proof
  show "\<exists>hs0. tr = [time_request cfg, HttpGet (balance_url cfg) hs0]"
    using check_balance_trace [OF assms(1)] by auto
next
  from negotiate_elicit [where c = c and tr = tr, OF assms(2,3,4)] assms(5)
  have "negotiate lib (Some c) ccy available sz tr =
      (Inr (Submit sz'), tr @ [Elicit (elicit_message lib ccy available sz)])"
    by simp
  from submit_run [OF assms(1) this, of ordType tdMode]
  show "case fst (get_okx_server_time lib cfg net
                      (tr @ [Elicit (elicit_message lib ccy available sz)])) of
             Inr ts \<Rightarrow>
               \<exists>hs. snd (create_order lib cfg net instId side sz ordType tdMode (Some c) []) =
                 tr @ [Elicit (elicit_message lib ccy available sz), time_request cfg,
                       HttpPost (order_url cfg) hs
                         (json_dumps lib (body_dict instId (default_arg ''cash'' tdMode) side
                            (default_arg ''market'' ordType) sz'))]
           | Inl e \<Rightarrow>
               create_order lib cfg net instId side sz ordType tdMode (Some c) [] =
                 (Inl e, tr @ [Elicit (elicit_message lib ccy available sz), time_request cfg])"
    by (auto split: sum.splits)
qed


text \<open>
  The amended C3 at work: selling 1 BTC with 0.001 BTC available, the user accepting the
  size 0.001, on an exchange that answers every request.
\<close>

theorem accepted_size_witness:
  "check_balance sample_lib sample_config exchange ''BTC-USDT'' ''sell'' [] =
     (Inr (''BTC'', sample_small), [time_request sample_config, sample_balance_request])
   \<and> float_of_str sample_lib ''1'' = Some (Fin 1)
   \<and> float_gt (Fin 1) sample_small
   \<and> accepting [time_request sample_config, sample_balance_request, sample_prompt] =
       ElicitReturns sample_acceptance
   \<and> accepted_size sample_acceptance = Some ''0.001''
   \<and> (\<exists>hs. snd (create_order sample_lib sample_config exchange ''BTC-USDT'' ''sell'' ''1''
                 None None (Some accepting) []) =
         [time_request sample_config, sample_balance_request, sample_prompt,
          time_request sample_config,
          HttpPost ''https://www.okx.com/api/v5/trade/order'' hs
            (json_dumps sample_lib
               (body_dict ''BTC-USDT'' ''cash'' ''sell'' ''market'' ''0.001''))])"
proof -
  have h1: "check_balance sample_lib sample_config exchange ''BTC-USDT'' ''sell'' [] =
     (Inr (''BTC'', sample_small), [time_request sample_config, sample_balance_request])"
    by (rule sample_check_sell)
  have h2: "float_of_str sample_lib ''1'' = Some (Fin 1)"
    by (simp add: sample_lib_simps)
  have h3: "float_gt (Fin 1) sample_small" by simp
  have h4: "accepting ([time_request sample_config, sample_balance_request] @ [sample_prompt]) =
       ElicitReturns sample_acceptance"
    by (simp add: accepting_def)
  have h5: "accepted_size sample_acceptance = Some ''0.001''"
    by (simp add: accepted_size_def)
  from accepted_size_is_submitted [where c = accepting
      and tr = "[time_request sample_config, sample_balance_request]"
      and ordType = None and tdMode = None, OF h1 h2 h3 h4 h5] h1 h2 h3 h4 h5
  show ?thesis
    by (simp add: sample_clock sample_config_simps)
qed

text \<open>
  C3 as stated fails: the same negotiation on an exchange that becomes unreachable
  after the prompt. The replacement size is accepted, the server-time request of line
  159 raises, and no order is submitted.
\<close>

theorem accepted_size_no_order_counterexample:
  "check_balance sample_lib sample_config (exchange_until 3) ''BTC-USDT'' ''sell'' [] =
     (Inr (''BTC'', sample_small), [time_request sample_config, sample_balance_request])
   \<and> float_of_str sample_lib ''1'' = Some (Fin 1)
   \<and> float_gt (Fin 1) sample_small
   \<and> accepting [time_request sample_config, sample_balance_request, sample_prompt] =
       ElicitReturns sample_acceptance
   \<and> accepted_size sample_acceptance = Some ''0.001''
   \<and> create_order sample_lib sample_config (exchange_until 3) ''BTC-USDT'' ''sell'' ''1''
        None None (Some accepting) [] =
       (Inl TransportError,
        [time_request sample_config, sample_balance_request, sample_prompt,
         time_request sample_config])
   \<and> filter is_post
        [time_request sample_config, sample_balance_request, sample_prompt,
         time_request sample_config] = []"
proof -
  have h1: "check_balance sample_lib sample_config (exchange_until 3) ''BTC-USDT'' ''sell'' [] =
     (Inr (''BTC'', sample_small), [time_request sample_config, sample_balance_request])"
    by (rule sample_check_sell_until) simp
  have h2: "float_of_str sample_lib ''1'' = Some (Fin 1)"
    by (simp add: sample_lib_simps)
  have h3: "float_gt (Fin 1) sample_small" by simp
  have h4: "accepting ([time_request sample_config, sample_balance_request] @ [sample_prompt]) =
       ElicitReturns sample_acceptance"
    by (simp add: accepting_def)
  have h5: "accepted_size sample_acceptance = Some ''0.001''"
    by (simp add: accepted_size_def)
  from negotiate_elicit [where c = accepting
      and tr = "[time_request sample_config, sample_balance_request]", OF h2 h3 h4] h5
  have "negotiate sample_lib (Some accepting) ''BTC'' sample_small ''1''
          [time_request sample_config, sample_balance_request] =
        (Inr (Submit ''0.001''),
         [time_request sample_config, sample_balance_request] @ [sample_prompt])"
    by simp
  from submit_run [OF h1 this, of None None] h1 h2 h3 h4 h5 show ?thesis
    by (simp add: sample_clock_until sample_config_simps)
qed



section \<open>The balance inspector: claim C10\<close>

lemma scan_details_skip:
  "list_all (other_entry ccy) before \<Longrightarrow>
   scan_details lib ccy (before @ rest) = scan_details lib ccy rest"
  by (induction before) (auto simp: other_entry_def res_bind_def split: json.splits option.splits)

lemma scan_details_hit:
  "map_of entry ''ccy'' = Some (JStr ccy) \<Longrightarrow>
   scan_details lib ccy (JObj entry # rest) =
     py_float lib (case map_of entry ''availBal'' of None \<Rightarrow> JInt 0 | Some v \<Rightarrow> v)"
  by (simp add: res_bind_def)

text \<open>
  C10. For a balance reply that is a dict: when it has no \<^verbatim>\<open>data\<close> key the available
  amount is 0; when \<^verbatim>\<open>data\<close> is a list whose first element is an account dict, only
  that account is inspected, the later ones are ignored: the amount is the float of
  the \<^verbatim>\<open>availBal\<close> field (0 if the field is missing) of the first entry of
  \<^verbatim>\<open>details\<close> whose \<^verbatim>\<open>ccy\<close> equals the checked currency, whatever follows that
  entry, and it is 0 when no entry matches or the account has no \<^verbatim>\<open>details\<close>.
\<close>

theorem available_from_first_account_first_match:
  "(map_of reply ''data'' = None \<longrightarrow> resolve_available lib ccy (JObj reply) = Inr (Fin 0))
   \<and> (map_of reply ''data'' = Some (JArr (JObj account # later_accounts))
        \<and> map_of account ''details'' = Some (JArr (before @ JObj entry # after))
        \<and> list_all (other_entry ccy) before
        \<and> map_of entry ''ccy'' = Some (JStr ccy)
      \<longrightarrow> resolve_available lib ccy (JObj reply) =
            py_float lib (case map_of entry ''availBal'' of None \<Rightarrow> JInt 0 | Some v \<Rightarrow> v))
   \<and> (map_of reply ''data'' = Some (JArr (JObj account # later_accounts))
        \<and> map_of account ''details'' = Some (JArr entries)
        \<and> list_all (other_entry ccy) entries
      \<longrightarrow> resolve_available lib ccy (JObj reply) = Inr (Fin 0))
   \<and> (map_of reply ''data'' = Some (JArr (JObj account # later_accounts))
        \<and> map_of account ''details'' = None
      \<longrightarrow> resolve_available lib ccy (JObj reply) = Inr (Fin 0))"
proof (intro conjI impI)
  assume "map_of reply ''data'' = None"
  then show "resolve_available lib ccy (JObj reply) = Inr (Fin 0)"
    by (simp add: resolve_available_def res_bind_def)
next
  assume a: "map_of reply ''data'' = Some (JArr (JObj account # later_accounts))
        \<and> map_of account ''details'' = Some (JArr (before @ JObj entry # after))
        \<and> list_all (other_entry ccy) before
        \<and> map_of entry ''ccy'' = Some (JStr ccy)"
  then have "resolve_available lib ccy (JObj reply) =
      scan_details lib ccy (before @ JObj entry # after)"
    by (simp add: resolve_available_def res_bind_def)
  with a show "resolve_available lib ccy (JObj reply) =
            py_float lib (case map_of entry ''availBal'' of None \<Rightarrow> JInt 0 | Some v \<Rightarrow> v)"
    by (simp only: scan_details_skip scan_details_hit)
next
  assume a: "map_of reply ''data'' = Some (JArr (JObj account # later_accounts))
        \<and> map_of account ''details'' = Some (JArr entries)
        \<and> list_all (other_entry ccy) entries"
  then have "resolve_available lib ccy (JObj reply) = scan_details lib ccy (entries @ [])"
    by (simp add: resolve_available_def res_bind_def)
  with a show "resolve_available lib ccy (JObj reply) = Inr (Fin 0)"
    by (simp only: scan_details_skip scan_details.simps)
next
  assume "map_of reply ''data'' = Some (JArr (JObj account # later_accounts))
        \<and> map_of account ''details'' = None"
  then show "resolve_available lib ccy (JObj reply) = Inr (Fin 0)"
    by (simp add: resolve_available_def res_bind_def)
qed


text \<open>
  C10 at work on the reply with two accounts: USDT resolves to the first USDT entry of
  the first account, BTC (held in the second account only) to 0, and a reply without
  \<^verbatim>\<open>data\<close> to 0.
\<close>

theorem available_witness:
  "resolve_available sample_lib ''USDT'' two_accounts = Inr (Fin 50)
   \<and> resolve_available sample_lib ''BTC'' two_accounts = Inr (Fin 0)
   \<and> resolve_available sample_lib ''USDT'' (JObj [(''code'', JStr ''0'')]) = Inr (Fin 0)"
proof -
  note t = available_from_first_account_first_match
  have "resolve_available sample_lib ''USDT'' two_accounts = py_float sample_lib (JStr ''50'')"
    unfolding two_accounts_def
    using t [where lib = sample_lib and ccy = "''USDT''"
        and reply = "[(''code'', JStr ''0''), (''data'', JArr [JObj [(''details'', JArr
             [JObj [(''ccy'', JStr ''ETH''), (''availBal'', JStr ''1'')],
              JObj [(''ccy'', JStr ''USDT''), (''availBal'', JStr ''50'')],
              JObj [(''ccy'', JStr ''USDT''), (''availBal'', JStr ''0.001'')]])],
           JObj [(''details'', JArr
             [JObj [(''ccy'', JStr ''BTC''), (''availBal'', JStr ''1'')]])]])]"
        and account = "[(''details'', JArr
             [JObj [(''ccy'', JStr ''ETH''), (''availBal'', JStr ''1'')],
              JObj [(''ccy'', JStr ''USDT''), (''availBal'', JStr ''50'')],
              JObj [(''ccy'', JStr ''USDT''), (''availBal'', JStr ''0.001'')]])]"
        and later_accounts = "[JObj [(''details'', JArr
             [JObj [(''ccy'', JStr ''BTC''), (''availBal'', JStr ''1'')]])]]"
        and before = "[JObj [(''ccy'', JStr ''ETH''), (''availBal'', JStr ''1'')]]"
        and entry = "[(''ccy'', JStr ''USDT''), (''availBal'', JStr ''50'')]"
        and after = "[JObj [(''ccy'', JStr ''USDT''), (''availBal'', JStr ''0.001'')]]",
        THEN conjunct2, THEN conjunct1]
    by (simp add: other_entry_def)
  moreover have "resolve_available sample_lib ''BTC'' two_accounts = Inr (Fin 0)"
    unfolding two_accounts_def
    using t [where lib = sample_lib and ccy = "''BTC''"
        and reply = "[(''code'', JStr ''0''), (''data'', JArr [JObj [(''details'', JArr
             [JObj [(''ccy'', JStr ''ETH''), (''availBal'', JStr ''1'')],
              JObj [(''ccy'', JStr ''USDT''), (''availBal'', JStr ''50'')],
              JObj [(''ccy'', JStr ''USDT''), (''availBal'', JStr ''0.001'')]])],
           JObj [(''details'', JArr
             [JObj [(''ccy'', JStr ''BTC''), (''availBal'', JStr ''1'')]])]])]"
        and account = "[(''details'', JArr
             [JObj [(''ccy'', JStr ''ETH''), (''availBal'', JStr ''1'')],
              JObj [(''ccy'', JStr ''USDT''), (''availBal'', JStr ''50'')],
              JObj [(''ccy'', JStr ''USDT''), (''availBal'', JStr ''0.001'')]])]"
        and later_accounts = "[JObj [(''details'', JArr
             [JObj [(''ccy'', JStr ''BTC''), (''availBal'', JStr ''1'')]])]]"
        and entries = "[JObj [(''ccy'', JStr ''ETH''), (''availBal'', JStr ''1'')],
              JObj [(''ccy'', JStr ''USDT''), (''availBal'', JStr ''50'')],
              JObj [(''ccy'', JStr ''USDT''), (''availBal'', JStr ''0.001'')]]",
        THEN conjunct2, THEN conjunct2, THEN conjunct1]
    by (simp add: other_entry_def)
  moreover have "resolve_available sample_lib ''USDT'' (JObj [(''code'', JStr ''0'')]) =
      Inr (Fin 0)"
    using t [where lib = sample_lib and ccy = "''USDT''"
        and reply = "[(''code'', JStr ''0'')]", THEN conjunct1]
    by simp
  ultimately show ?thesis
    by (simp add: sample_lib_simps)
qed

section \<open>The signer: claims C5 and C6\<close>



text \<open>The signature is a function of the secret and the signed message.\<close>

lemma signature_of_message:
  "get_okx_signature cfg timestamp method request_path (Some body) =
     (case truthy (API_SECRET cfg) of
        None \<Rightarrow> Inl (ValueError ''API_SECRET not found in environment variables.'')
      | Some secret \<Rightarrow>
          Inr (b64encode (hmac_sha256 (utf8 secret)
                 (utf8 (signed_message timestamp method request_path body)))))"
  by (simp add: get_okx_signature_def signed_message_def Let_def split: option.split)

lemma length_upper [simp]: "length (upper s) = length s"
  by (simp add: upper_def)







text \<open>
  Signatures are 44 characters long, so among the infinitely many bodies two must share
  a signature: that two different signed messages have different signatures is not a
  property the signer can have.
\<close>

lemma length_sha256: "length (sha256 m) = 32"
  by (simp add: sha256_def bytes_of_u32_def split: prod.split)

lemma length_hmac_sha256: "length (hmac_sha256 key msg) = 32"
  by (simp add: hmac_sha256_def Let_def length_sha256)

lemma length_b64encode: "length (b64encode bs) = 4 * ((length bs + 2) div 3)"
proof (induction bs rule: b64encode.induct)
  case (1 a b c rest)
  have "(length rest + 5) div 3 = Suc ((length rest + 2) div 3)"
    by presburger
  with 1 show ?case
    by (simp add: Let_def add.commute)
qed (simp_all add: Let_def)

lemma signature_collision:
  "\<exists>b b'. b \<noteq> b' \<and>
     get_okx_signature cfg ts m p (Some b) = get_okx_signature cfg ts m p (Some b')"
proof -
  let ?f = "\<lambda>b. get_okx_signature cfg ts m p (Some b)"
  have "range ?f \<subseteq>
      insert (Inl (ValueError ''API_SECRET not found in environment variables.''))
        (Inr ` {s. set s \<subseteq> UNIV \<and> length s = 44})"
    by (auto simp: signature_of_message length_b64encode length_hmac_sha256
        split: option.splits)
  moreover have "finite (insert (Inl (ValueError ''API_SECRET not found in environment variables.'') :: error + string)
        (Inr ` {s. set s \<subseteq> UNIV \<and> length s = 44}))"
    by (intro finite.insertI finite_imageI finite_lists_length_eq) simp
  ultimately have "finite (range ?f)"
    by (rule finite_subset)
  then have "\<not> inj ?f"
    using infinite_UNIV_listI [where ?'a = char] by (auto dest: finite_imageD)
  then show ?thesis
    by (auto simp: inj_def)
qed

section \<open>Missing credentials: claim C7\<close>

text \<open>
  Every tool starts with the same signed GET. With a credential missing it sends the
  server-time request and then raises.
\<close>

lemma signed_get_json_missing:
  assumes "truthy (API_KEY cfg) = None \<or> truthy (API_SECRET cfg) = None
           \<or> truthy (API_PASSPHRASE cfg) = None"
  shows "signed_get_json lib cfg net path tr =
           (case fst (get_okx_server_time lib cfg net tr) of
              Inl e \<Rightarrow> Inl e
            | Inr ts \<Rightarrow> Inl (config_error cfg),
            tr @ [time_request cfg])"
proof -
  obtain r where c: "get_okx_server_time lib cfg net tr = (r, tr @ [time_request cfg])"
    by (rule clock_result)
  show ?thesis
  proof (cases r)
    case (Inl e)
    with c show ?thesis by (simp add: signed_get_json_def io_bind_Inl)
  next
    case (Inr ts)
    with c have ne: "ts \<noteq> []" by (auto dest: clock_nonempty)
    show ?thesis
    proof (cases "truthy (API_KEY cfg) = None \<or> truthy (API_PASSPHRASE cfg) = None")
      case True
      from c Inr headers_no_key [OF True] True show ?thesis
        by (simp add: signed_get_json_def io_bind_def config_error_def)
    next
      case False
      then obtain k p
        where kp: "truthy (API_KEY cfg) = Some k" "truthy (API_PASSPHRASE cfg) = Some p"
        by auto
      with assms have s: "truthy (API_SECRET cfg) = None" by simp
      from c Inr headers_no_secret [OF kp s ne] kp show ?thesis
        by (simp add: signed_get_json_def io_bind_def config_error_def)
    qed
  qed
qed

lemma call_tool_get_fails:
  assumes "\<And>path. signed_get_json lib cfg net path tr = (Inl e, tr')"
  shows "call_tool lib cfg net call tr = (Inl e, tr')"
  by (cases call)
    (simp_all add: get_balance_def get_ticker_def get_kline_def signed_get_def
      create_order_def check_balance_def io_bind_Inl assms)

text \<open>
  C7, as amended. For every tool invocation made while the key, the secret or the
  passphrase is absent or empty, exactly one request is sent, the unauthenticated
  server-time request, and no authenticated request follows: if the server-time request
  succeeds the invocation raises the configuration error, and if it fails the
  invocation raises that failure instead.
\<close>

theorem missing_credential_raises_after_time_request:
  assumes "truthy (API_KEY cfg) = None \<or> truthy (API_SECRET cfg) = None
           \<or> truthy (API_PASSPHRASE cfg) = None"
  shows "call_tool lib cfg net call [] =
           (case fst (get_okx_server_time lib cfg net []) of
              Inl e \<Rightarrow> Inl e
            | Inr ts \<Rightarrow> Inl (config_error cfg),
            [time_request cfg])"
proof (cases "fst (get_okx_server_time lib cfg net [])")
  case (Inl e)
  with signed_get_json_missing [OF assms, of lib net _ "[]"]
  show ?thesis by (simp add: call_tool_get_fails)
next
  case (Inr ts)
  with signed_get_json_missing [OF assms, of lib net _ "[]"]
  show ?thesis by (simp add: call_tool_get_fails)
qed

lemma sample_clock_any:
  assumes "BASE_URL cfg = ''https://www.okx.com''"
  shows "get_okx_server_time sample_lib cfg exchange tr = (Inr sample_ts, tr @ [time_request cfg])"
  by (simp add: get_okx_server_time_def io_defs assms sample_lib_simps
        exchange_simps time_reply_def res_bind_def Let_def)

text \<open>The amended C7 at work: \<^verbatim>\<open>get_ticker\<close> with an empty key.\<close>

theorem missing_credential_witness:
  "truthy (API_KEY (sample_config\<lparr>API_KEY := Some []\<rparr>)) = None
   \<and> call_tool sample_lib (sample_config\<lparr>API_KEY := Some []\<rparr>) exchange
        (GetTicker ''BTC-USDT'') [] =
       (Inl (ValueError ''API_KEY or API_PASSPHRASE not found in environment variables.''),
        [HttpGet ''https://www.okx.com/api/v5/public/time'' []])"
proof -
  have h: "truthy (API_KEY (sample_config\<lparr>API_KEY := Some []\<rparr>)) = None
           \<or> truthy (API_SECRET (sample_config\<lparr>API_KEY := Some []\<rparr>)) = None
           \<or> truthy (API_PASSPHRASE (sample_config\<lparr>API_KEY := Some []\<rparr>)) = None"
    by simp
  from missing_credential_raises_after_time_request [OF h, of sample_lib exchange
      "GetTicker ''BTC-USDT''"]
  show ?thesis
    by (simp add: sample_clock_any sample_config_simps config_error_def)
qed

text \<open>
  C7 as stated fails: \<^verbatim>\<open>get_balance\<close> without a secret. The server-time request of
  line 70 is sent before the configuration error of line 42 is raised.
\<close>

theorem missing_secret_network_first_counterexample:
  "API_SECRET (sample_config\<lparr>API_SECRET := None\<rparr>) = None
   \<and> call_tool sample_lib (sample_config\<lparr>API_SECRET := None\<rparr>) exchange GetBalance [] =
       (Inl (ValueError ''API_SECRET not found in environment variables.''),
        [HttpGet ''https://www.okx.com/api/v5/public/time'' []])"
proof -
  have h: "truthy (API_KEY (sample_config\<lparr>API_SECRET := None\<rparr>)) = None
           \<or> truthy (API_SECRET (sample_config\<lparr>API_SECRET := None\<rparr>)) = None
           \<or> truthy (API_PASSPHRASE (sample_config\<lparr>API_SECRET := None\<rparr>)) = None"
    by simp
  from signed_get_json_missing [OF h, of sample_lib exchange _ "[]"]
  have "\<And>path. signed_get_json sample_lib (sample_config\<lparr>API_SECRET := None\<rparr>) exchange
           path [] =
       (Inl (ValueError ''API_SECRET not found in environment variables.''),
        [HttpGet ''https://www.okx.com/api/v5/public/time'' []])"
    by (simp add: sample_clock_any sample_config_simps config_error_def)
  from call_tool_get_fails [of sample_lib _ exchange "[]", OF this, of GetBalance]
  show ?thesis
    by simp
qed

section \<open>Malformed instrument ids: claim C8\<close>

lemma split_on_nonempty: "split_on sep s \<noteq> []"
  by (induction s) (auto split: list.splits)

lemma length_split_on: "length (split_on sep s) = Suc (count_list s sep)"
  by (induction s) (auto simp: split_on_nonempty split: list.splits)

lemma unpack2_wrong_length: "length parts \<noteq> 2 \<Longrightarrow> unpack2 parts = Inl PyValueError"
  by (cases parts rule: unpack2.cases) auto

lemma headers_trace:
  "ts \<noteq> [] \<Longrightarrow> snd (get_okx_headers lib cfg net method path body (Some ts) tr) = tr"
  by (simp add: get_okx_headers_def io_defs split: option.split sum.split)

lemma signed_get_json_trace:
  "snd (signed_get_json lib cfg net path tr) = tr @ [time_request cfg]
   \<or> (\<exists>hs. snd (signed_get_json lib cfg net path tr) =
          tr @ [time_request cfg, HttpGet (BASE_URL cfg @ path) hs])"
proof -
  obtain r where c: "get_okx_server_time lib cfg net tr = (r, tr @ [time_request cfg])"
    by (rule clock_result)
  show ?thesis
  proof (cases r)
    case (Inl e)
    with c show ?thesis by (simp add: signed_get_json_def io_bind_Inl)
  next
    case (Inr ts)
    with c have ne: "ts \<noteq> []" by (auto dest: clock_nonempty)
    obtain h t where h: "get_okx_headers lib cfg net ''GET'' path None (Some ts)
        (tr @ [time_request cfg]) = (h, t)"
      by (cases "get_okx_headers lib cfg net ''GET'' path None (Some ts)
        (tr @ [time_request cfg])")
    with headers_trace [OF ne, of lib cfg net "''GET''" path None "tr @ [time_request cfg]"]
    have t: "t = tr @ [time_request cfg]" by simp
    from c Inr h t show ?thesis
      by (cases h)
        (auto simp: signed_get_json_def io_defs Let_def
          split: http_outcome.splits option.splits)
  qed
qed

text \<open>
  C8, as amended. For every \<^verbatim>\<open>create_order\<close> invocation whose instrument id does not
  contain exactly one separator, no order is submitted and the invocation raises, but
  only after the network has been used: the workflow first sends the server-time
  request and the balance query; if they succeed, unpacking the split id raises
  ValueError (line 129), and if one of them fails, that failure is raised.
\<close>

theorem malformed_instrument_rejected_after_balance_query:
  assumes "count_list instId CHR ''-'' \<noteq> 1"
  shows "case signed_get_json lib cfg net ''/api/v5/account/balance'' [] of
           (Inl e, tr) \<Rightarrow>
             create_order lib cfg net instId side sz ordType tdMode ctx [] = (Inl e, tr)
             \<and> filter is_post tr = []
         | (Inr balance_data, tr) \<Rightarrow>
             create_order lib cfg net instId side sz ordType tdMode ctx [] = (Inl PyValueError, tr)
             \<and> (\<exists>hs. tr = [time_request cfg, HttpGet (balance_url cfg) hs])"
proof -
  obtain r tr where g: "signed_get_json lib cfg net ''/api/v5/account/balance'' [] = (r, tr)"
    by (cases "signed_get_json lib cfg net ''/api/v5/account/balance'' []")
  from assms have u: "unpack2 (split_on CHR ''-'' instId) = Inl PyValueError"
    by (simp add: unpack2_wrong_length length_split_on)
  show ?thesis
  proof (cases r)
    case (Inl e)
    from signed_get_json_trace [of lib cfg net "''/api/v5/account/balance''" "[]"] g
    have "filter is_post tr = []" by auto
    with g Inl show ?thesis
      by (simp add: create_order_def check_balance_def io_bind_Inl)
  next
    case (Inr j)
    with g signed_get_json_ok [of lib cfg net "''/api/v5/account/balance''" "[]" j tr]
    have "\<exists>hs. tr = [time_request cfg, HttpGet (balance_url cfg) hs]" by auto
    with g Inr u show ?thesis
      by (simp add: create_order_def check_balance_def io_bind_def io_lift_def)
  qed
qed

lemma sample_balance_query:
  "signed_get_json sample_lib sample_config exchange ''/api/v5/account/balance'' [] =
     (Inr balance_json, [time_request sample_config, sample_balance_request])"
  by (simp add: sample_clock signed_get_json_def io_defs sample_headers
        sample_config_simps exchange_simps balance_reply_def)

text \<open>The amended C8 at work: an instrument id with two separators.\<close>

theorem malformed_instrument_witness:
  "count_list ''BTC-USDT-SWAP'' CHR ''-'' \<noteq> 1
   \<and> create_order sample_lib sample_config exchange ''BTC-USDT-SWAP'' ''buy'' ''1''
        None None None [] =
       (Inl PyValueError, [time_request sample_config, sample_balance_request])"
proof -
  have h: "count_list ''BTC-USDT-SWAP'' CHR ''-'' \<noteq> 1" by simp
  from malformed_instrument_rejected_after_balance_query [OF h, of sample_lib sample_config
      exchange "''buy''" "''1''" None None None] h
  show ?thesis
    by (simp add: sample_balance_query)
qed

text \<open>
  C8 as stated fails: for the id \<^verbatim>\<open>BTCUSDT\<close>, which has no separator, the server
  time is fetched and the balance queried before the ValueError of line 129.
\<close>

theorem malformed_instrument_network_first_counterexample:
  "count_list ''BTCUSDT'' CHR ''-'' = 0
   \<and> create_order sample_lib sample_config exchange ''BTCUSDT'' ''buy'' ''1''
        None None None [] =
       (Inl PyValueError, [time_request sample_config, sample_balance_request])"
  by (simp add: create_order_def check_balance_def sample_balance_query io_bind_def
      io_lift_def)

section \<open>Where the secret goes: claim C9\<close>


































end
